theory Spec2Isabelle
  imports Main "HOL-Library.Word"
begin

unbundle bit_operations_syntax

section \<open>Flowgrind: setting up the source of a test flow (source.c)\<close>

text \<open>
  This theory embeds \<^verbatim>\<open>src/source.c\<close>: the static function \<^verbatim>\<open>name2socket\<close> and the
  entry point \<^verbatim>\<open>add_flow_source\<close>. Both are translated statement by statement.
  Everything the C code does to the outside (system calls, libc, the helpers of the
  daemon that live in other files) is modelled as follows:
  \<^item> every call is recorded, in program order, in a trace of events;
  \<^item> what the kernel or an absent helper answers is read from a record \<open>os\<close> of answer
    functions; each takes the trace so far, so that two calls with the same arguments may
    be answered differently;
  \<^item> \<^verbatim>\<open>errno\<close> is a variable of the world; a failing system call writes it.
\<close>

subsection \<open>printf conversions\<close>

definition digit_char :: "nat \<Rightarrow> char" where
  "digit_char d = ''0123456789abcdef'' ! d"

fun fmt_u :: "nat \<Rightarrow> string" where
  "fmt_u n = (if n < 10 then [digit_char n] else fmt_u (n div 10) @ [digit_char (n mod 10)])"

fun fmt_x :: "nat \<Rightarrow> string" where
  "fmt_x n = (if n < 16 then [digit_char n] else fmt_x (n div 16) @ [digit_char (n mod 16)])"

declare fmt_u.simps [simp del] fmt_x.simps [simp del]

definition fmt_d :: "int \<Rightarrow> string" where
  "fmt_d i = (if i < 0 then ''-'' @ fmt_u (nat (- i)) else fmt_u (nat i))"

definition dquote :: string where
  "dquote = [CHR 0x22]"

subsection \<open>Socket addresses and their text\<close>

text \<open>
  An IPv4 address is its four bytes in network order, an IPv6 address its eight 16-bit
  groups. A socket address is one of \<^verbatim>\<open>struct sockaddr_in\<close>, \<^verbatim>\<open>struct sockaddr_in6\<close>
  or an address of another family. The resolver fills \<^verbatim>\<open>ai_family\<close> with the family of
  \<^verbatim>\<open>ai_addr\<close>, so \<open>ai_family\<close> is computed from the address, and the two tests of
  \<^verbatim>\<open>res->ai_family\<close> followed by a cast of \<^verbatim>\<open>res->ai_addr\<close> are the case
  distinction on the address.
\<close>

datatype in_addr = In_addr "8 word" "8 word" "8 word" "8 word"

datatype in6_addr =
  In6_addr "16 word" "16 word" "16 word" "16 word" "16 word" "16 word" "16 word" "16 word"

datatype sockaddr =
    Sockaddr_in in_addr
  | Sockaddr_in6 in6_addr
  | Sockaddr_other

datatype pf = PF_INET | PF_INET6 | PF_OTHER

record addrinfo =
  ai_socktype :: int
  ai_protocol :: int
  ai_addr :: sockaddr
  ai_addrlen :: nat

definition ai_family :: "addrinfo \<Rightarrow> pf" where
  "ai_family res =
     (case ai_addr res of
        Sockaddr_in _ \<Rightarrow> PF_INET
      | Sockaddr_in6 _ \<Rightarrow> PF_INET6
      | Sockaddr_other \<Rightarrow> PF_OTHER)"

text \<open>\<^verbatim>\<open>inet_ntoa\<close>: dotted decimal, \<^verbatim>\<open>"%d.%d.%d.%d"\<close> of the four bytes.\<close>

fun inet_ntoa :: "in_addr \<Rightarrow> string" where
  "inet_ntoa (In_addr a b c d) =
     fmt_u (unat a) @ ''.'' @ fmt_u (unat b) @ ''.'' @ fmt_u (unat c) @ ''.'' @ fmt_u (unat d)"

text \<open>
  \<^verbatim>\<open>inet_ntop(AF_INET6, ...)\<close> as the C libraries implement it (the BIND code that glibc
  and the BSDs ship). First the longest run of zero groups is found, \<open>(base, len)\<close> with
  \<open>base = -1\<close> for none; a run shorter than two groups is not abbreviated.
\<close>

fun ntop6_runs :: "16 word list \<Rightarrow> int \<Rightarrow> int \<times> int \<Rightarrow> int \<times> int \<Rightarrow> int \<times> int" where
  "ntop6_runs [] i best cur =
     (if fst cur \<noteq> - 1 \<and> (fst best = - 1 \<or> snd cur > snd best) then cur else best)"
| "ntop6_runs (w # ws) i best cur =
     (if w = 0 then
        (if fst cur = - 1 then ntop6_runs ws (i + 1) best (i, 1)
         else ntop6_runs ws (i + 1) best (fst cur, snd cur + 1))
      else if fst cur \<noteq> - 1 then
        ntop6_runs ws (i + 1)
          (if fst best = - 1 \<or> snd cur > snd best then cur else best) (- 1, snd cur)
      else ntop6_runs ws (i + 1) best cur)"

definition ntop6_best :: "16 word list \<Rightarrow> int \<times> int" where
  "ntop6_best ws =
     (let best = ntop6_runs ws 0 (- 1, 0) (- 1, 0)
      in if fst best \<noteq> - 1 \<and> snd best < 2 then (- 1, snd best) else best)"

definition ntop4_tail :: "16 word \<Rightarrow> 16 word \<Rightarrow> string" where
  "ntop4_tail w6 w7 =
     fmt_u (unat (drop_bit 8 w6)) @ ''.'' @ fmt_u (unat (w6 AND 0xff)) @ ''.'' @
     fmt_u (unat (drop_bit 8 w7)) @ ''.'' @ fmt_u (unat (w7 AND 0xff))"

text \<open>
  The formatting loop over the groups still to print, \<open>i\<close> the index of the first of them
  and \<open>tp\<close> the text so far. An address that encapsulates IPv4 prints its last two groups
  dotted and leaves the loop.
\<close>

fun ntop6_fmt :: "int \<times> int \<Rightarrow> bool \<Rightarrow> string \<Rightarrow> int \<Rightarrow> 16 word list \<Rightarrow> string \<Rightarrow> string" where
  "ntop6_fmt best v4 tail i [] tp = tp"
| "ntop6_fmt best v4 tail i (w # ws) tp =
     (if fst best \<noteq> - 1 \<and> i \<ge> fst best \<and> i < fst best + snd best then
        ntop6_fmt best v4 tail (i + 1) ws (if i = fst best then tp @ '':'' else tp)
      else
        (let tp1 = (if i \<noteq> 0 then tp @ '':'' else tp)
         in if i = 6 \<and> v4 then tp1 @ tail
            else ntop6_fmt best v4 tail (i + 1) ws (tp1 @ fmt_x (unat w))))"

fun ntop6_text :: "in6_addr \<Rightarrow> string" where
  "ntop6_text (In6_addr w0 w1 w2 w3 w4 w5 w6 w7) =
     (let best = ntop6_best [w0, w1, w2, w3, w4, w5, w6, w7];
          v4 = (fst best = 0 \<and> (snd best = 6 \<or> (snd best = 5 \<and> w5 = 0xffff)));
          tp = ntop6_fmt best v4 (ntop4_tail w6 w7) 0 [w0, w1, w2, w3, w4, w5, w6, w7] [];
          tp = (if fst best \<noteq> - 1 \<and> fst best + snd best = 8 then tp @ '':'' else tp)
      in tp)"

text \<open>
  \<^verbatim>\<open>inet_ntop(AF_INET6, src, dst, size)\<close>: the text with its terminator must fit in
  \<open>sz\<close> bytes, else nothing is written and the call fails with \<^verbatim>\<open>ENOSPC\<close>.
\<close>

definition inet_ntop6 :: "in6_addr \<Rightarrow> nat \<Rightarrow> string option" where
  "inet_ntop6 a sz = (if length (ntop6_text a) + 1 > sz then None else Some (ntop6_text a))"

subsection \<open>The data of a flow and of a request\<close>

text \<open>
  The structures come from \<^verbatim>\<open>common.h\<close> and \<^verbatim>\<open>daemon.h\<close>; the records have the
  fields that \<^verbatim>\<open>source.c\<close> reads or writes. A C \<^verbatim>\<open>int\<close> on which the code does
  arithmetic (\<^verbatim>\<open>maximum_block_size\<close>, compared with the loop counter and converted
  to \<^verbatim>\<open>size_t\<close>) is a 32-bit word; descriptors, return codes, flags and buffer sizes,
  which are only stored and compared, are integers. A pointer that may be \<^verbatim>\<open>NULL\<close>
  is an option; a C string is the list of its characters before the terminator.
\<close>

record flow_settings =
  requested_send_buffer_size :: int
  requested_read_buffer_size :: int
  maximum_block_size :: "32 word"
  byte_counting :: int

record flow_source_settings =
  destination_host :: string
  destination_port :: "32 word"
  late_connect :: int

datatype flow_state_t = GRIND_WAIT_CONNECT | GRIND_WAIT_ACCEPT | GRIND

record flow =
  id_f :: int
  state :: flow_state_t
  fd :: int
  write_block :: "8 word list option"
  read_block :: "8 word list option"
  settings :: flow_settings
  source_settings :: flow_source_settings
  addr :: "sockaddr option"
  addr_len :: nat
  error :: "string option"
  connect_called :: int
  pmtu :: int

record request_add_flow_source =
  r_error :: "string option"
  rq_settings :: flow_settings
  rq_source_settings :: flow_source_settings
  flow_id :: int
  real_read_buffer_size :: int
  real_send_buffer_size :: int
  cc_alg :: string

subsection \<open>The world: trace, errno and the answers of the platform\<close>

text \<open>
  The result of a system call: \<open>Ok v\<close> returns \<open>v\<close> and leaves \<^verbatim>\<open>errno\<close> alone,
  \<open>Err e\<close> returns \<open>-1\<close> and sets \<^verbatim>\<open>errno\<close> to \<open>e\<close>.
\<close>

datatype sysret = Ok int | Err int

fun retval :: "sysret \<Rightarrow> int" where
  "retval (Ok v) = v"
| "retval (Err e) = - 1"

fun new_errno :: "sysret \<Rightarrow> int \<Rightarrow> int" where
  "new_errno (Ok v) old = old"
| "new_errno (Err e) old = e"

datatype sockopt = SO_SNDBUF | SO_RCVBUF

datatype errcode = ERR_FATAL | ERR_WARNING

datatype loglevel = LOG_WARNING | LOG_ALERT

datatype event =
    Ev_getaddrinfo string string int
  | Ev_freeaddrinfo
  | Ev_socket pf int int sysret
  | Ev_set_window_size_directed int int sockopt int
  | Ev_connect int "sockaddr option" nat sysret
  | Ev_close int
  | Ev_error errcode string
  | Ev_logging_log loglevel string
  | Ev_malloc nat bool
  | Ev_calloc nat nat bool
  | Ev_init_flow int
  | Ev_uninit_flow flow
  | Ev_set_flow_tcp_options flow int "string option"
  | Ev_getsockopt_TCP_CONGESTION int sysret
  | Ev_fg_pcap_go flow
  | Ev_get_pmtu int int

record world =
  errno :: int
  trace :: "event list"

text \<open>
  The platform. \<open>TCP_CONGESTION\<close> and \<open>HAVE_LIBPCAP\<close> are the two macros that
  \<^verbatim>\<open>add_flow_source\<close> is compiled under. The other fields answer a call given the
  trace so far and the call's arguments:
  \<^item> \<open>sys_getaddrinfo\<close>: the return code and the list of results (the list matters only
    when the code is 0);
  \<^item> \<open>sys_connect\<close>: the address argument is a pointer, \<open>None\<close> when it is null;
  \<^item> \<open>sys_malloc\<close>, \<open>sys_calloc\<close>: whether the allocation succeeds (a failing one
    sets \<^verbatim>\<open>errno\<close> to \<^verbatim>\<open>ENOMEM\<close>);
  \<^item> \<open>sys_getsockopt_cc\<close>: the result of the call and the algorithm name it stores;
  \<^item> \<open>sys_strerror\<close>, \<open>sys_gai_strerror\<close>: the message texts of the C library.

  Three helpers of the daemon are not in \<^verbatim>\<open>source.c\<close>; their answers are taken from
  the platform as well.
  \<^item> \<open>sys_set_window_size_directed\<close>. Modelled from the spec: \<^verbatim>\<open>set_window_size_directed\<close>
    is missing; it asks for a buffer size in one direction and returns the size the
    kernel reports afterwards.
  \<^item> \<open>sys_set_flow_tcp_options\<close>. Modelled from the spec: \<^verbatim>\<open>set_flow_tcp_options\<close> is
    missing; it applies the socket options of the flow and, when one cannot be applied,
    attaches an error to the flow. The answer is the return code and the error field of
    the flow afterwards; no other field of the flow changes. The event records the flow as
    it was passed and both parts of the answer.
  \<^item> \<open>sys_get_pmtu\<close>. Modelled from the spec: \<^verbatim>\<open>get_pmtu\<close> is missing; it returns the
    path MTU discovered on the socket.
\<close>

record os =
  TCP_CONGESTION :: bool
  HAVE_LIBPCAP :: bool
  sys_getaddrinfo :: "event list \<Rightarrow> string \<Rightarrow> string \<Rightarrow> int \<times> addrinfo list"
  sys_socket :: "event list \<Rightarrow> pf \<Rightarrow> int \<Rightarrow> int \<Rightarrow> sysret"
  sys_connect :: "event list \<Rightarrow> int \<Rightarrow> sockaddr option \<Rightarrow> nat \<Rightarrow> sysret"
  sys_malloc :: "event list \<Rightarrow> nat \<Rightarrow> bool"
  sys_calloc :: "event list \<Rightarrow> nat \<Rightarrow> nat \<Rightarrow> bool"
  sys_getsockopt_cc :: "event list \<Rightarrow> int \<Rightarrow> sysret \<times> string"
  sys_strerror :: "int \<Rightarrow> string"
  sys_gai_strerror :: "int \<Rightarrow> string"
  sys_set_window_size_directed :: "event list \<Rightarrow> int \<Rightarrow> int \<Rightarrow> sockopt \<Rightarrow> int"
  sys_set_flow_tcp_options :: "event list \<Rightarrow> flow \<Rightarrow> int \<times> string option"
  sys_get_pmtu :: "event list \<Rightarrow> int \<Rightarrow> int"

definition emit :: "event \<Rightarrow> world \<Rightarrow> world" where
  "emit ev w = w\<lparr>trace := trace w @ [ev]\<rparr>"

definition socket :: "os \<Rightarrow> pf \<Rightarrow> int \<Rightarrow> int \<Rightarrow> world \<Rightarrow> int \<times> world" where
  "socket os domain ty pr w =
     (let r = sys_socket os (trace w) domain ty pr
      in (retval r, emit (Ev_socket domain ty pr r) (w\<lparr>errno := new_errno r (errno w)\<rparr>)))"

definition connect :: "os \<Rightarrow> int \<Rightarrow> sockaddr option \<Rightarrow> nat \<Rightarrow> world \<Rightarrow> int \<times> world" where
  "connect os s a len w =
     (let r = sys_connect os (trace w) s a len
      in (retval r, emit (Ev_connect s a len r) (w\<lparr>errno := new_errno r (errno w)\<rparr>)))"

text \<open>\<^verbatim>\<open>close\<close> is called on a descriptor the loop has just created; its result is not read.\<close>

definition close :: "int \<Rightarrow> world \<Rightarrow> world" where
  "close s w = emit (Ev_close s) w"

definition set_window_size_directed :: "os \<Rightarrow> int \<Rightarrow> int \<Rightarrow> sockopt \<Rightarrow> world \<Rightarrow> int \<times> world" where
  "set_window_size_directed os s window direction w =
     (let r = sys_set_window_size_directed os (trace w) s window direction
      in (r, emit (Ev_set_window_size_directed s window direction r) w))"

text \<open>
  Modelled from the spec: \<^verbatim>\<open>flow_error\<close> and \<^verbatim>\<open>request_error\<close> are missing; each
  stores the formatted message as the error of the flow, or of the request. The model
  takes the message already formatted.
\<close>

definition flow_error :: "flow \<Rightarrow> string \<Rightarrow> flow" where
  "flow_error flow msg = flow\<lparr>error := Some msg\<rparr>"

definition request_error :: "request_add_flow_source \<Rightarrow> string \<Rightarrow> request_add_flow_source" where
  "request_error request msg = request\<lparr>r_error := Some msg\<rparr>"

text \<open>\<^verbatim>\<open>"%s"\<close> of a string pointer; the C library prints a null pointer as \<^verbatim>\<open>(null)\<close>.\<close>

definition fmt_s :: "string option \<Rightarrow> string" where
  "fmt_s p = (case p of None \<Rightarrow> ''(null)'' | Some s \<Rightarrow> s)"

subsection \<open>name2socket\<close>

text \<open>
  A function either returns a value or never returns: \<^verbatim>\<open>error(ERR_FATAL, ...)\<close> ends the
  process (and if it came back, the \<^verbatim>\<open>memcpy\<close> after it would write through a null
  pointer).
\<close>

datatype 'a outcome = Returns 'a | Aborts

definition ENOSPC :: int where
  "ENOSPC = 28"

definition ENOMEM :: int where
  "ENOMEM = 12"

text \<open>
  The variables that the loop writes through its pointer arguments: the host string of the
  caller and the two output sizes (\<open>None\<close> for a null pointer, else the value stored).
\<close>

record n2s_vars =
  server_name :: string
  send_buffer_size :: "int option"
  read_buffer_size :: "int option"

text \<open>
  Lines 111 to 119, after a successful \<^verbatim>\<open>connect\<close>. For IPv4,
  \<^verbatim>\<open>strncpy(server_name, inet_ntoa(...), 256); server_name[255] = 0\<close> leaves the first
  255 characters of the text as the string; for IPv6, \<^verbatim>\<open>inet_ntop\<close> writes the text if it
  fits in 256 bytes.
\<close>

definition rewrite_server_name :: "sockaddr \<Rightarrow> string \<Rightarrow> world \<Rightarrow> string \<times> world" where
  "rewrite_server_name a name w =
     (case a of
        Sockaddr_in sin_addr \<Rightarrow> (take 255 (inet_ntoa sin_addr), w)
      | Sockaddr_in6 sin6_addr \<Rightarrow>
          (case inet_ntop6 sin6_addr 256 of
             None \<Rightarrow> (name, w\<lparr>errno := ENOSPC\<rparr>)
           | Some text \<Rightarrow> (text, w))
      | Sockaddr_other \<Rightarrow> (name, w))"

definition connect_warning :: "os \<Rightarrow> string \<Rightarrow> 32 word \<Rightarrow> int \<Rightarrow> string" where
  "connect_warning os name port e =
     ''Failed to connect to '' @ dquote @ name @ '':'' @ fmt_d (sint port) @ dquote @ '': '' @
     sys_strerror os e"

definition connect_failure :: "os \<Rightarrow> string \<Rightarrow> 32 word \<Rightarrow> int \<Rightarrow> string" where
  "connect_failure os name port e =
     ''Could not establish connection to '' @ dquote @ name @ '':'' @ fmt_d (sint port) @ dquote @
     '': '' @ sys_strerror os e"

text \<open>
  Lines 101 to 104, on the socket just created: each of the two sizes is asked for and read
  back only if the caller passed a place to store it.
\<close>

definition tune_socket ::
  "os \<Rightarrow> int \<Rightarrow> int \<Rightarrow> int \<Rightarrow> n2s_vars \<Rightarrow> world \<Rightarrow> n2s_vars \<times> world" where
  "tune_socket os sockfd read_buffer_size_req send_buffer_size_req v w =
     (let (v2, w2) =
            (if send_buffer_size v \<noteq> None then
               let (r, w') = set_window_size_directed os sockfd send_buffer_size_req SO_SNDBUF w
               in (v\<lparr>send_buffer_size := Some r\<rparr>, w')
             else (v, w));
          (v3, w3) =
            (if read_buffer_size v2 \<noteq> None then
               let (r, w') = set_window_size_directed os sockfd read_buffer_size_req SO_RCVBUF w2
               in (v2\<lparr>read_buffer_size := Some r\<rparr>, w')
             else (v2, w2))
      in (v3, w3))"

text \<open>
  The \<^verbatim>\<open>do ... while ((res = res->ai_next) != NULL)\<close> loop of lines 94 to 126, over the
  results not yet visited. The empty list is \<^verbatim>\<open>res == NULL\<close> after the loop; a
  \<^verbatim>\<open>break\<close> yields the result it stopped at and its descriptor. A \<^verbatim>\<open>continue\<close> goes
  to the loop condition, that is, to the next result.
\<close>

fun name2socket_loop ::
  "os \<Rightarrow> 32 word \<Rightarrow> int \<Rightarrow> int \<Rightarrow> int \<Rightarrow> addrinfo list \<Rightarrow> n2s_vars \<Rightarrow> world \<Rightarrow>
   (addrinfo \<times> int) option \<times> n2s_vars \<times> world" where
  "name2socket_loop os port do_connect read_buffer_size_req send_buffer_size_req [] v w =
     (None, v, w)"
| "name2socket_loop os port do_connect read_buffer_size_req send_buffer_size_req (res # rest) v w =
     (let (sockfd, w1) = socket os (ai_family res) (ai_socktype res) (ai_protocol res) w
      in if sockfd < 0 then
           name2socket_loop os port do_connect read_buffer_size_req send_buffer_size_req rest v w1
         else
           let (v3, w3) = tune_socket os sockfd read_buffer_size_req send_buffer_size_req v w1
           in if do_connect = 0 then (Some (res, sockfd), v3, w3)
              else
                let (rc, w4) = connect os sockfd (Some (ai_addr res)) (ai_addrlen res) w3
                in if rc = 0 then
                     let (name, w5) = rewrite_server_name (ai_addr res) (server_name v3) w4
                     in (Some (res, sockfd), v3\<lparr>server_name := name\<rparr>, w5)
                   else
                     let w5 = emit (Ev_error ERR_WARNING
                                (connect_warning os (server_name v3) port (errno w4))) w4;
                         w6 = close sockfd w5
                     in name2socket_loop os port do_connect read_buffer_size_req
                          send_buffer_size_req rest v3 w6)"

record n2s_result =
  n2s_ret :: "int outcome"
  n2s_flow :: flow
  n2s_saptr :: "sockaddr option option"
  n2s_lenp :: "nat option"
  n2s_vars :: n2s_vars
  n2s_world :: world

text \<open>
  \<^verbatim>\<open>name2socket\<close>. The arguments \<open>saptr\<close> and \<open>lenp\<close> are pointers to the caller's
  address pointer and length; \<open>v\<close> holds what \<^verbatim>\<open>server_name\<close>, \<^verbatim>\<open>send_buffer_size\<close>
  and \<^verbatim>\<open>read_buffer_size\<close> point to. \<^verbatim>\<open>snprintf(service, 7, "%u", port)\<close> keeps at
  most six digits. A resolver that reports success with no result is outside its contract;
  the loop body would read through a null pointer. The local \<^verbatim>\<open>fd\<close> is \<open>sockfd\<close> here, the
  flow has a field of that name.
\<close>

definition name2socket ::
  "os \<Rightarrow> flow \<Rightarrow> 32 word \<Rightarrow> sockaddr option option \<Rightarrow> nat option \<Rightarrow> int \<Rightarrow> int \<Rightarrow> int \<Rightarrow>
   n2s_vars \<Rightarrow> world \<Rightarrow> n2s_result" where
  "name2socket os flow port saptr lenp do_connect read_buffer_size_req send_buffer_size_req v w =
     (let service = take 6 (fmt_u (unat port));
          (n, res) = sys_getaddrinfo os (trace w) (server_name v) service;
          w1 = emit (Ev_getaddrinfo (server_name v) service n) w
      in if n \<noteq> 0 then
           \<lparr>n2s_ret = Returns (- 1),
            n2s_flow = flow_error flow (''getaddrinfo() failed: '' @ sys_gai_strerror os n),
            n2s_saptr = saptr, n2s_lenp = lenp, n2s_vars = v, n2s_world = w1\<rparr>
         else if res = [] then
           \<lparr>n2s_ret = Aborts, n2s_flow = flow, n2s_saptr = saptr, n2s_lenp = lenp,
            n2s_vars = v, n2s_world = w1\<rparr>
         else
           (case name2socket_loop os port do_connect read_buffer_size_req send_buffer_size_req
                   res v w1 of
              (None, v', w2) \<Rightarrow>
                \<lparr>n2s_ret = Returns (- 1),
                 n2s_flow = flow_error flow (connect_failure os (server_name v') port (errno w2)),
                 n2s_saptr = saptr, n2s_lenp = lenp, n2s_vars = v',
                 n2s_world = emit Ev_freeaddrinfo w2\<rparr>
            | (Some (r, sockfd), v', w2) \<Rightarrow>
                if saptr \<noteq> None \<and> lenp \<noteq> None then
                  let ok = sys_malloc os (trace w2) (ai_addrlen r);
                      w3 = emit (Ev_malloc (ai_addrlen r) ok)
                             (if ok then w2 else w2\<lparr>errno := ENOMEM\<rparr>)
                  in if \<not> ok then
                       \<lparr>n2s_ret = Aborts, n2s_flow = flow, n2s_saptr = Some None, n2s_lenp = lenp,
                        n2s_vars = v',
                        n2s_world = emit (Ev_error ERR_FATAL
                                      (''malloc(): failed: '' @ sys_strerror os (errno w3))) w3\<rparr>
                     else
                       \<lparr>n2s_ret = Returns sockfd, n2s_flow = flow,
                        n2s_saptr = Some (Some (ai_addr r)), n2s_lenp = Some (ai_addrlen r),
                        n2s_vars = v', n2s_world = emit Ev_freeaddrinfo w3\<rparr>
                else
                  \<lparr>n2s_ret = Returns sockfd, n2s_flow = flow, n2s_saptr = saptr, n2s_lenp = lenp,
                   n2s_vars = v', n2s_world = emit Ev_freeaddrinfo w2\<rparr>))"

subsection \<open>The flow table\<close>

text \<open>
  The globals of the daemon: the array \<^verbatim>\<open>flows\<close>, as a function of the index, and
  \<^verbatim>\<open>num_flows\<close>, the number of slots in use; slot \<open>i\<close> is live when \<open>i < num_flows\<close>.
  \<open>next_flow_id\<close> is the identifier that the next flow gets. \<^verbatim>\<open>MAX_FLOWS\<close>, a macro
  of \<^verbatim>\<open>common.h\<close>, is an argument of \<open>add_flow_source\<close>.
\<close>

record daemon =
  num_flows :: nat
  flows :: "nat \<Rightarrow> flow"
  next_flow_id :: int

text \<open>
  Modelled from the spec: \<^verbatim>\<open>init_flow\<close> is missing; it default-initialises the flow:
  a fresh identifier, the state of a source awaiting its connect, no socket, null buffers,
  address and error, and no connect issued yet.
\<close>

definition init_flow :: "flow \<Rightarrow> int \<Rightarrow> int \<Rightarrow> flow" where
  "init_flow flow is_source fresh_id =
     flow\<lparr>id_f := fresh_id,
          state := (if is_source \<noteq> 0 then GRIND_WAIT_CONNECT else GRIND_WAIT_ACCEPT),
          fd := - 1, write_block := None, read_block := None, addr := None, addr_len := 0,
          error := None, connect_called := 0, pmtu := 0\<rparr>"

text \<open>
  Modelled from the spec: \<^verbatim>\<open>uninit_flow\<close> is missing; it tears the flow down (closes its
  socket, frees both buffers, the address and the error text). The call is recorded with
  the flow as it is handed over.
\<close>

definition uninit_flow :: "flow \<Rightarrow> world \<Rightarrow> world" where
  "uninit_flow flow w = emit (Ev_uninit_flow flow) w"

definition logging_log :: "loglevel \<Rightarrow> string \<Rightarrow> world \<Rightarrow> world" where
  "logging_log level msg w = emit (Ev_logging_log level msg) w"

text \<open>
  \<^verbatim>\<open>calloc(1, size)\<close>: a block of \<open>size\<close> zero bytes, or a null pointer with
  \<^verbatim>\<open>errno\<close> set to \<^verbatim>\<open>ENOMEM\<close>. The argument is the \<^verbatim>\<open>int\<close>
  \<^verbatim>\<open>maximum_block_size\<close> converted to the 64-bit \<^verbatim>\<open>size_t\<close>.
\<close>

definition size_t_of_int :: "32 word \<Rightarrow> nat" where
  "size_t_of_int i = unat (scast i :: 64 word)"

definition calloc :: "os \<Rightarrow> nat \<Rightarrow> nat \<Rightarrow> world \<Rightarrow> 8 word list option \<times> world" where
  "calloc os nmemb sz w =
     (let ok = sys_calloc os (trace w) nmemb sz
      in (if ok then Some (replicate (nmemb * sz) 0) else None,
          emit (Ev_calloc nmemb sz ok) (if ok then w else w\<lparr>errno := ENOMEM\<rparr>)))"

text \<open>
  The loop of lines 181 and 182, from \<open>byte_idx\<close> on; both the counter and the bound are
  C \<^verbatim>\<open>int\<close>s, compared as signed numbers.
\<close>

function write_block_fill :: "32 word \<Rightarrow> 32 word \<Rightarrow> 8 word list \<Rightarrow> 8 word list" where
  "write_block_fill byte_idx max_size block =
     (if byte_idx <s max_size then
        write_block_fill (byte_idx + 1) max_size
          (block[nat (sint byte_idx) := ucast (byte_idx AND 0xff)])
      else block)"
  by pat_completeness auto
termination
proof (relation "measure (\<lambda>(byte_idx, max_size, block). nat (sint max_size - sint byte_idx))")
  show "wf (measure (\<lambda>(byte_idx, max_size, block). nat (sint max_size - sint byte_idx)))"
    by simp
next
  fix byte_idx max_size :: "32 word" and block :: "8 word list"
  assume "byte_idx <s max_size"
  then have below: "sint byte_idx < sint max_size"
    by (simp add: word_sless_alt)
  have "sint max_size < 2 ^ 31"
    using sint_lt [of max_size] by simp
  with below have upper: "sint byte_idx + 1 < 2 ^ 31"
    by linarith
  have lower: "- (2 ^ 31) \<le> sint byte_idx + 1"
    using sint_ge [of byte_idx] by simp
  have "sint (byte_idx + 1) = signed_take_bit 31 (sint byte_idx + sint (1::32 word))"
    by (simp add: sint_word_ariths)
  also have "\<dots> = sint byte_idx + 1"
    using upper lower by (simp add: signed_take_bit_int_eq_self)
  finally have "sint (byte_idx + 1) = sint byte_idx + 1" .
  with below
  show "((byte_idx + 1, max_size, block[nat (sint byte_idx) := ucast (byte_idx AND 0xff)]),
         (byte_idx, max_size, block))
        \<in> measure (\<lambda>(byte_idx, max_size, block). nat (sint max_size - sint byte_idx))"
    by simp
qed

declare write_block_fill.simps [simp del]

subsection \<open>add_flow_source\<close>

record afs_result =
  afs_ret :: "int outcome"
  afs_request :: request_add_flow_source
  afs_daemon :: daemon
  afs_world :: world

text \<open>
  \<^verbatim>\<open>flow\<close> points into the table: what has been written through it is in slot \<open>i\<close>.
  Reading an output argument back: the value stored behind the pointer.
\<close>

definition slot :: "daemon \<Rightarrow> nat \<Rightarrow> flow \<Rightarrow> daemon" where
  "slot d i flow = d\<lparr>flows := (flows d)(i := flow)\<rparr>"

definition deref :: "'a option \<Rightarrow> 'a \<Rightarrow> 'a" where
  "deref p old = (case p of None \<Rightarrow> old | Some x \<Rightarrow> x)"

text \<open>Lines 219 to 231: packet capture, the early connect, the identifier of the flow.\<close>

definition add_flow_source_connect ::
  "os \<Rightarrow> request_add_flow_source \<Rightarrow> daemon \<Rightarrow> nat \<Rightarrow> flow \<Rightarrow> world \<Rightarrow> afs_result" where
  "add_flow_source_connect os request d i flow w =
     (let w1 = (if HAVE_LIBPCAP os then emit (Ev_fg_pcap_go flow) w else w);
          (flow2, w2) =
            (if late_connect (source_settings flow) = 0 then
               let (rc, w') = connect os (fd flow) (addr flow) (addr_len flow) w1;
                   flow' = flow\<lparr>connect_called := 1\<rparr>;
                   mtu = sys_get_pmtu os (trace w') (fd flow')
               in (flow'\<lparr>pmtu := mtu\<rparr>, emit (Ev_get_pmtu (fd flow') mtu) w')
             else (flow, w1))
      in \<lparr>afs_ret = Returns 0, afs_request = request\<lparr>flow_id := id_f flow2\<rparr>,
          afs_daemon = slot d i flow2, afs_world = w2\<rparr>)"

text \<open>Lines 199 to 217: the TCP options and the congestion control algorithm in use.\<close>

definition add_flow_source_options ::
  "os \<Rightarrow> request_add_flow_source \<Rightarrow> daemon \<Rightarrow> nat \<Rightarrow> flow \<Rightarrow> world \<Rightarrow> afs_result" where
  "add_flow_source_options os request d i flow w =
     (let (rc, e) = sys_set_flow_tcp_options os (trace w) flow;
          w1 = emit (Ev_set_flow_tcp_options flow rc e) w;
          flow1 = flow\<lparr>error := e\<rparr>
      in if rc = - 1 then
           let request1 = request\<lparr>r_error := error flow1\<rparr>;
               flow2 = flow1\<lparr>error := None\<rparr>;
               w2 = uninit_flow flow2 w1
           in \<lparr>afs_ret = Returns (- 1), afs_request = request1,
               afs_daemon = (slot d i flow2)\<lparr>num_flows := num_flows d - 1\<rparr>, afs_world = w2\<rparr>
         else if TCP_CONGESTION os then
           let (r, name) = sys_getsockopt_cc os (trace w1) (fd flow1);
               w2 = emit (Ev_getsockopt_TCP_CONGESTION (fd flow1) r)
                      (w1\<lparr>errno := new_errno r (errno w1)\<rparr>)
           in if retval r = - 1 then
                let request1 = request_error request
                      (''failed to determine actual congestion control algorithm: '' @
                       sys_strerror os (errno w2));
                    w3 = uninit_flow flow1 w2
                in \<lparr>afs_ret = Returns (- 1), afs_request = request1,
                    afs_daemon = (slot d i flow1)\<lparr>num_flows := num_flows d - 1\<rparr>,
                    afs_world = w3\<rparr>
              else add_flow_source_connect os (request\<lparr>cc_alg := name\<rparr>) d i flow1 w2
         else add_flow_source_connect os request d i flow1 w1)"

text \<open>
  Lines 185 to 197. \<^verbatim>\<open>name2socket\<close> is called with \<^verbatim>\<open>do_connect = 0\<close>; its pointer
  arguments point into the flow (the host string, the address and its length) and into
  the request (the two real buffer sizes), so what it stored there is copied back.
\<close>

definition add_flow_source_socket ::
  "os \<Rightarrow> request_add_flow_source \<Rightarrow> daemon \<Rightarrow> nat \<Rightarrow> flow \<Rightarrow> world \<Rightarrow> afs_result" where
  "add_flow_source_socket os request d i flow w =
     (let flow1 = flow\<lparr>state := GRIND_WAIT_CONNECT\<rparr>;
          r = name2socket os flow1 (destination_port (source_settings flow1))
                (Some (addr flow1)) (Some (addr_len flow1)) 0
                (requested_read_buffer_size (settings flow1))
                (requested_send_buffer_size (settings flow1))
                \<lparr>server_name = destination_host (source_settings flow1),
                 send_buffer_size = Some (real_send_buffer_size request),
                 read_buffer_size = Some (real_read_buffer_size request)\<rparr> w;
          flow2 = (n2s_flow r)
                    \<lparr>source_settings := (source_settings (n2s_flow r))
                       \<lparr>destination_host := server_name (n2s_vars r)\<rparr>,
                     addr := deref (n2s_saptr r) (addr flow1),
                     addr_len := deref (n2s_lenp r) (addr_len flow1)\<rparr>;
          request1 = request
                    \<lparr>real_read_buffer_size :=
                       deref (read_buffer_size (n2s_vars r)) (real_read_buffer_size request),
                     real_send_buffer_size :=
                       deref (send_buffer_size (n2s_vars r)) (real_send_buffer_size request)\<rparr>;
          w1 = n2s_world r
      in case n2s_ret r of
           Aborts \<Rightarrow>
             \<lparr>afs_ret = Aborts, afs_request = request1, afs_daemon = slot d i flow2,
              afs_world = w1\<rparr>
         | Returns sockfd \<Rightarrow>
             let flow3 = flow2\<lparr>fd := sockfd\<rparr>
             in if fd flow3 = - 1 then
                  let msg = ''Could not create data socket: '' @ fmt_s (error flow3);
                      w2 = logging_log LOG_ALERT msg w1;
                      request2 = request_error request1 msg;
                      w3 = uninit_flow flow3 w2
                  in \<lparr>afs_ret = Returns (- 1), afs_request = request2,
                      afs_daemon = (slot d i flow3)\<lparr>num_flows := num_flows d - 1\<rparr>,
                      afs_world = w3\<rparr>
                else add_flow_source_options os request1 d i flow3 w1)"

text \<open>
  \<^verbatim>\<open>add_flow_source\<close>, lines 157 to 183 and then the three parts above. \<open>i\<close> is the
  slot taken by \<^verbatim>\<open>flow = &flows[num_flows++]\<close>.
\<close>

definition add_flow_source ::
  "nat \<Rightarrow> os \<Rightarrow> request_add_flow_source \<Rightarrow> daemon \<Rightarrow> world \<Rightarrow> afs_result" where
  "add_flow_source MAX_FLOWS os request d w =
     (if num_flows d \<ge> MAX_FLOWS then
        let msg = ''Can not accept another flow, already handling MAX_FLOW flows.'';
            w1 = logging_log LOG_WARNING msg w
        in \<lparr>afs_ret = Returns (- 1), afs_request = request_error request msg, afs_daemon = d,
            afs_world = w1\<rparr>
      else
        let i = num_flows d;
            d1 = d\<lparr>num_flows := num_flows d + 1\<rparr>;
            flow1 = init_flow (flows d1 i) 1 (next_flow_id d1);
            d2 = d1\<lparr>next_flow_id := next_flow_id d1 + 1\<rparr>;
            w1 = emit (Ev_init_flow 1) w;
            flow2 = flow1\<lparr>settings := rq_settings request,
                          source_settings := rq_source_settings request\<rparr>;
            (wb, w2) = calloc os 1 (size_t_of_int (maximum_block_size (settings flow2))) w1;
            (rb, w3) = calloc os 1 (size_t_of_int (maximum_block_size (settings flow2))) w2;
            flow3 = flow2\<lparr>write_block := wb, read_block := rb\<rparr>
        in if write_block flow3 = None \<or> read_block flow3 = None then
             let msg = ''could not allocate memory for read/write blocks'';
                 w4 = logging_log LOG_ALERT msg w3;
                 request1 = request_error request msg;
                 w5 = uninit_flow flow3 w4
             in \<lparr>afs_ret = Returns (- 1), afs_request = request1,
                 afs_daemon = (slot d2 i flow3)\<lparr>num_flows := num_flows d2 - 1\<rparr>,
                 afs_world = w5\<rparr>
           else
             let flow4 =
                   (if byte_counting (settings flow3) \<noteq> 0 then
                      flow3\<lparr>write_block :=
                        map_option (write_block_fill 0 (maximum_block_size (settings flow3)))
                          (write_block flow3)\<rparr>
                    else flow3)
             in add_flow_source_socket os request d2 i flow4 w3)"

subsection \<open>Concrete inputs\<close>

text \<open>
  A platform on which every call succeeds, for a host that resolves to an IPv6 and an IPv4
  address, an empty flow table, and a request for a byte-counting flow to port 9000.
\<close>

definition ex_cand4 :: addrinfo where
  "ex_cand4 = \<lparr>ai_socktype = 1, ai_protocol = 6, ai_addr = Sockaddr_in (In_addr 127 0 0 1),
               ai_addrlen = 16\<rparr>"

definition ex_cand6 :: addrinfo where
  "ex_cand6 = \<lparr>ai_socktype = 1, ai_protocol = 6,
               ai_addr = Sockaddr_in6 (In6_addr 0 0 0 0 0 0 0 1), ai_addrlen = 28\<rparr>"

definition ex_os :: os where
  "ex_os =
     \<lparr>TCP_CONGESTION = True, HAVE_LIBPCAP = True,
      sys_getaddrinfo = (\<lambda>h host service. (0, [ex_cand6, ex_cand4])),
      sys_socket = (\<lambda>h domain ty pr. Ok 3),
      sys_connect = (\<lambda>h s a len. Ok 0),
      sys_malloc = (\<lambda>h sz. True),
      sys_calloc = (\<lambda>h nmemb sz. True),
      sys_getsockopt_cc = (\<lambda>h s. (Ok 0, ''cubic'')),
      sys_strerror = (\<lambda>e. ''errno '' @ fmt_d e),
      sys_gai_strerror = (\<lambda>n. ''gai '' @ fmt_d n),
      sys_set_window_size_directed = (\<lambda>h s window direction. if window \<le> 0 then 87380 else 2 * window),
      sys_set_flow_tcp_options = (\<lambda>h flow. (0, error flow)),
      sys_get_pmtu = (\<lambda>h s. 1500)\<rparr>"

definition ex_flow :: flow where
  "ex_flow =
     \<lparr>id_f = 0, state = GRIND, fd = 0, write_block = None, read_block = None,
      settings = \<lparr>requested_send_buffer_size = 0, requested_read_buffer_size = 0,
                  maximum_block_size = 0, byte_counting = 0\<rparr>,
      source_settings = \<lparr>destination_host = [], destination_port = 0, late_connect = 0\<rparr>,
      addr = None, addr_len = 0, error = None, connect_called = 0, pmtu = 0\<rparr>"

definition ex_daemon :: daemon where
  "ex_daemon = \<lparr>num_flows = 0, flows = (\<lambda>i. ex_flow), next_flow_id = 0\<rparr>"

definition ex_world :: world where
  "ex_world = \<lparr>errno = 0, trace = []\<rparr>"

definition ex_request :: request_add_flow_source where
  "ex_request =
     \<lparr>r_error = None,
      rq_settings = \<lparr>requested_send_buffer_size = 8192, requested_read_buffer_size = 0,
                     maximum_block_size = 4, byte_counting = 1\<rparr>,
      rq_source_settings = \<lparr>destination_host = ''localhost'', destination_port = 9000,
                            late_connect = 0\<rparr>,
      flow_id = - 7, real_read_buffer_size = - 1, real_send_buffer_size = - 1, cc_alg = []\<rparr>"

text \<open>The same request with the connect deferred to the transfer phase.\<close>

definition ex_request_late :: request_add_flow_source where
  "ex_request_late =
     ex_request\<lparr>rq_source_settings := (rq_source_settings ex_request)\<lparr>late_connect := 1\<rparr>\<rparr>"

text \<open>The same request without byte counting.\<close>

definition ex_request_plain :: request_add_flow_source where
  "ex_request_plain =
     ex_request\<lparr>rq_settings := (rq_settings ex_request)\<lparr>byte_counting := 0\<rparr>\<rparr>"

text \<open>
  The same platform with a peer that refuses every connection, one whose connections
  time out, and one on which a TCP option cannot be set.
\<close>

definition ex_os_refused :: os where
  "ex_os_refused = ex_os\<lparr>sys_connect := (\<lambda>h s a len. Err 111)\<rparr>"

definition ex_os_timeout :: os where
  "ex_os_timeout = ex_os\<lparr>sys_connect := (\<lambda>h s a len. Err 110)\<rparr>"

definition ex_os_no_options :: os where
  "ex_os_no_options =
     ex_os\<lparr>sys_set_flow_tcp_options := (\<lambda>h flow. (- 1, Some ''Unable to set TCP_NODELAY''))\<rparr>"

text \<open>The same platform with no descriptor left: every \<^verbatim>\<open>socket\<close> call fails.\<close>

definition ex_os_no_socket :: os where
  "ex_os_no_socket = ex_os\<lparr>sys_socket := (\<lambda>h domain ty pr. Err 24)\<rparr>"

text \<open>
  Inputs for \<^verbatim>\<open>name2socket\<close> itself: the caller's host string and two places for the
  effective buffer sizes, the same with a null pointer for the send size, and with a null
  pointer for the receive size. On the platform \<open>ex_os_v4\<close> the network of the IPv6
  candidate is unreachable (\<^verbatim>\<open>ENETUNREACH\<close>, 101) and the IPv4 candidate accepts.
\<close>

definition ex_vars :: n2s_vars where
  "ex_vars = \<lparr>server_name = ''localhost'', send_buffer_size = Some 0, read_buffer_size = Some 0\<rparr>"

definition ex_vars_no_send :: n2s_vars where
  "ex_vars_no_send = ex_vars\<lparr>send_buffer_size := None\<rparr>"

definition ex_vars_no_read :: n2s_vars where
  "ex_vars_no_read = ex_vars\<lparr>read_buffer_size := None\<rparr>"

definition ex_os_v4 :: os where
  "ex_os_v4 =
     ex_os\<lparr>sys_connect := (\<lambda>h s a len. if a = Some (ai_addr ex_cand4) then Ok 0 else Err 101)\<rparr>"

text \<open>
  What a rolled back admission leaves, for the table \<open>d\<close> as it was after the slot \<open>i\<close>
  was taken: the count is one less, the other slots are as they were, and the last call
  was \<^verbatim>\<open>uninit_flow\<close> on the flow of slot \<open>i\<close>.
\<close>

definition rolled_back :: "daemon \<Rightarrow> nat \<Rightarrow> afs_result \<Rightarrow> bool" where
  "rolled_back d i r \<longleftrightarrow>
     num_flows (afs_daemon r) = num_flows d - 1 \<and>
     (\<forall>j. j \<noteq> i \<longrightarrow> flows (afs_daemon r) j = flows d j) \<and>
     trace (afs_world r) \<noteq> [] \<and>
     last (trace (afs_world r)) = Ev_uninit_flow (flows (afs_daemon r) i)"

subsection \<open>Reading a trace\<close>

text \<open>The events that a call added to the trace, from the worlds before and after it.\<close>

definition new_events :: "world \<Rightarrow> world \<Rightarrow> event list" where
  "new_events w w' = drop (length (trace w)) (trace w')"

fun is_connect :: "event \<Rightarrow> bool" where
  "is_connect (Ev_connect s a len r) = True"
| "is_connect ev = False"

fun calloc_failed :: "event \<Rightarrow> bool" where
  "calloc_failed (Ev_calloc nmemb sz ok) = (\<not> ok)"
| "calloc_failed ev = False"

fun is_set_flow_tcp_options :: "event \<Rightarrow> bool" where
  "is_set_flow_tcp_options (Ev_set_flow_tcp_options flow rc e) = True"
| "is_set_flow_tcp_options ev = False"

text \<open>The calls that \<^verbatim>\<open>name2socket\<close> makes.\<close>

fun n2s_event :: "event \<Rightarrow> bool" where
  "n2s_event (Ev_getaddrinfo host service n) = True"
| "n2s_event Ev_freeaddrinfo = True"
| "n2s_event (Ev_socket domain ty pr r) = True"
| "n2s_event (Ev_set_window_size_directed s window direction r) = True"
| "n2s_event (Ev_connect s a len r) = True"
| "n2s_event (Ev_close s) = True"
| "n2s_event (Ev_error code msg) = True"
| "n2s_event (Ev_malloc sz ok) = True"
| "n2s_event ev = False"

text \<open>
  The addresses passed to \<^verbatim>\<open>connect\<close>, in the order of the calls, and the \<^verbatim>\<open>errno\<close>
  values of the calls that failed.
\<close>

fun connect_targets :: "event list \<Rightarrow> sockaddr option list" where
  "connect_targets [] = []"
| "connect_targets (Ev_connect s a len r # evs) = a # connect_targets evs"
| "connect_targets (ev # evs) = connect_targets evs"

fun connect_errnos :: "event list \<Rightarrow> int list" where
  "connect_errnos [] = []"
| "connect_errnos (Ev_connect s a len (Err e) # evs) = e # connect_errnos evs"
| "connect_errnos (ev # evs) = connect_errnos evs"

text \<open>
  The descriptors that are open after a sequence of events, given the ones open before it:
  a successful \<^verbatim>\<open>socket\<close> opens the one it returns, \<^verbatim>\<open>close\<close> closes its argument.
\<close>

fun fds_step :: "event \<Rightarrow> int list \<Rightarrow> int list" where
  "fds_step (Ev_socket domain ty pr r) opn = (if 0 \<le> retval r then retval r # opn else opn)"
| "fds_step (Ev_close s) opn = remove1 s opn"
| "fds_step ev opn = opn"

definition open_fds :: "event list \<Rightarrow> int list \<Rightarrow> int list" where
  "open_fds evs opn = fold fds_step evs opn"

text \<open>
  The events of lines 101 to 104 on the descriptor \<open>sockfd\<close>, after the history \<open>h\<close>: one
  call of \<^verbatim>\<open>set_window_size_directed\<close> for each non-null output pointer.
\<close>

definition tune_events :: "os \<Rightarrow> int \<Rightarrow> int \<Rightarrow> int \<Rightarrow> n2s_vars \<Rightarrow> event list \<Rightarrow> event list" where
  "tune_events os sockfd rreq sreq v h =
     (let snd_evs = (if send_buffer_size v \<noteq> None
            then [Ev_set_window_size_directed sockfd sreq SO_SNDBUF
                    (sys_set_window_size_directed os h sockfd sreq SO_SNDBUF)]
            else []);
          rcv_evs = (if read_buffer_size v \<noteq> None
            then [Ev_set_window_size_directed sockfd rreq SO_RCVBUF
                    (sys_set_window_size_directed os (h @ snd_evs) sockfd rreq SO_RCVBUF)]
            else [])
      in snd_evs @ rcv_evs)"

text \<open>
  The numeric text of an address: dotted decimal for IPv4, the \<^verbatim>\<open>inet_ntop\<close> text for
  IPv6.
\<close>

fun numeric_text :: "sockaddr \<Rightarrow> string" where
  "numeric_text (Sockaddr_in sin_addr) = inet_ntoa sin_addr"
| "numeric_text (Sockaddr_in6 sin6_addr) = ntop6_text sin6_addr"
| "numeric_text Sockaddr_other = []"

text \<open>The events after the loop of \<^verbatim>\<open>name2socket\<close>.\<close>

fun tail_event :: "event \<Rightarrow> bool" where
  "tail_event (Ev_malloc sz ok) = True"
| "tail_event (Ev_error code msg) = True"
| "tail_event Ev_freeaddrinfo = True"
| "tail_event ev = False"

text \<open>
  A monitor for the order of the calls on a socket. Its state is the descriptor of the last
  successful \<^verbatim>\<open>socket\<close> call, if any, and two flags: whether that descriptor has had its
  send size, and its receive size, set to the requested value since it was created.
  \<open>need_snd\<close> and \<open>need_rcv\<close> say which of the two sizes are expected. The monitor
  rejects a \<^verbatim>\<open>connect\<close> on a descriptor other than the current one or on one that still
  lacks an expected size, and a \<^verbatim>\<open>socket\<close> call while the current descriptor lacks one.
  A trace is accepted if the monitor runs through it and the last descriptor lacks nothing.
\<close>

type_synonym tune_state = "int option \<times> bool \<times> bool"

fun settled :: "bool \<Rightarrow> bool \<Rightarrow> tune_state \<Rightarrow> bool" where
  "settled need_snd need_rcv (cur, sd, rd) =
     (cur = None \<or> ((if need_snd then sd else True) \<and> (if need_rcv then rd else True)))"

fun tuned_step :: "bool \<Rightarrow> bool \<Rightarrow> int \<Rightarrow> int \<Rightarrow> event \<Rightarrow> tune_state \<Rightarrow> tune_state option" where
  "tuned_step need_snd need_rcv sreq rreq (Ev_socket domain ty pr r) (cur, sd, rd) =
     (if settled need_snd need_rcv (cur, sd, rd)
      then Some (if 0 \<le> retval r then Some (retval r) else None, False, False)
      else None)"
| "tuned_step need_snd need_rcv sreq rreq (Ev_set_window_size_directed s window direction r)
     (cur, sd, rd) =
     Some (cur,
           sd \<or> (cur = Some s \<and> direction = SO_SNDBUF \<and> window = sreq),
           rd \<or> (cur = Some s \<and> direction = SO_RCVBUF \<and> window = rreq))"
| "tuned_step need_snd need_rcv sreq rreq (Ev_connect s a len r) (cur, sd, rd) =
     (if cur = Some s \<and> (if need_snd then sd else True) \<and> (if need_rcv then rd else True)
      then Some (cur, sd, rd) else None)"
| "tuned_step need_snd need_rcv sreq rreq ev st = Some st"

fun tune_run :: "bool \<Rightarrow> bool \<Rightarrow> int \<Rightarrow> int \<Rightarrow> tune_state \<Rightarrow> event list \<Rightarrow> tune_state option" where
  "tune_run need_snd need_rcv sreq rreq st [] = Some st"
| "tune_run need_snd need_rcv sreq rreq st (ev # evs) =
     (case tuned_step need_snd need_rcv sreq rreq ev st of
        None \<Rightarrow> None
      | Some st' \<Rightarrow> tune_run need_snd need_rcv sreq rreq st' evs)"

definition tuned_before_connect :: "bool \<Rightarrow> bool \<Rightarrow> int \<Rightarrow> int \<Rightarrow> event list \<Rightarrow> bool" where
  "tuned_before_connect need_snd need_rcv sreq rreq evs =
     (case tune_run need_snd need_rcv sreq rreq (None, False, False) evs of
        None \<Rightarrow> False
      | Some st \<Rightarrow> settled need_snd need_rcv st)"

text \<open>
  \<open>adjusts dir ev\<close>: the event is a \<^verbatim>\<open>set_window_size_directed\<close> call for the direction
  \<open>dir\<close>. \<open>granted dir evs acc\<close>: the size returned by the last such call in \<open>evs\<close>,
  \<open>acc\<close> if there is none.
\<close>

fun adjusts :: "sockopt \<Rightarrow> event \<Rightarrow> bool" where
  "adjusts dir (Ev_set_window_size_directed s window direction r) = (direction = dir)"
| "adjusts dir ev = False"

fun granted :: "sockopt \<Rightarrow> event list \<Rightarrow> int option \<Rightarrow> int option" where
  "granted dir [] acc = acc"
| "granted dir (Ev_set_window_size_directed s window direction r # evs) acc =
     granted dir evs (if direction = dir then Some r else acc)"
| "granted dir (ev # evs) acc = granted dir evs acc"

section \<open>Properties\<close>

text \<open>The equations that evaluate the model on a concrete input.\<close>

lemmas model_defs =
  add_flow_source_def add_flow_source_socket_def add_flow_source_options_def
  add_flow_source_connect_def name2socket_def socket_def connect_def close_def tune_socket_def
  set_window_size_directed_def flow_error_def request_error_def fmt_s_def emit_def
  uninit_flow_def logging_log_def calloc_def init_flow_def slot_def deref_def size_t_of_int_def
  rewrite_server_name_def connect_warning_def connect_failure_def ai_family_def Let_def

lemmas ex_defs =
  ex_os_no_socket_def ex_os_def ex_request_def ex_daemon_def ex_world_def ex_cand4_def
  ex_cand6_def ex_flow_def ex_request_late_def ex_os_refused_def ex_os_timeout_def ex_os_no_options_def
  ex_request_plain_def

lemmas n2s_ex_defs = ex_vars_def ex_vars_no_send_def ex_vars_no_read_def ex_os_v4_def

subsection \<open>The calls of name2socket\<close>

lemma new_events_append [simp]: "trace w' = trace w @ evs \<Longrightarrow> new_events w w' = evs"
  by (simp add: new_events_def)

lemma name2socket_loop_events:
  "name2socket_loop os port dc rr sr cands v w = (res, v', w') \<Longrightarrow>
   \<exists>evs. trace w' = trace w @ evs \<and> list_all n2s_event evs \<and>
         (dc = 0 \<longrightarrow> \<not> list_ex is_connect evs)"
proof (induction cands arbitrary: v w)
  case Nil
  then show ?case by simp
next
  case (Cons c cs)
  show ?case
    using Cons.prems
    apply (simp add: Let_def socket_def connect_def close_def set_window_size_directed_def
        tune_socket_def emit_def rewrite_server_name_def
        split: prod.splits if_splits sockaddr.splits option.splits)
    apply (auto dest!: Cons.IH)
    done
qed

lemma name2socket_events:
  "\<exists>evs. trace (n2s_world (name2socket os flow port saptr lenp dc rr sr v w)) = trace w @ evs \<and>
         list_all n2s_event evs \<and> (dc = 0 \<longrightarrow> \<not> list_ex is_connect evs)"
proof (cases "name2socket_loop os port dc rr sr
         (snd (sys_getaddrinfo os (trace w) (server_name v) (take 6 (fmt_u (unat port)))))
         v (emit (Ev_getaddrinfo (server_name v) (take 6 (fmt_u (unat port)))
              (fst (sys_getaddrinfo os (trace w) (server_name v) (take 6 (fmt_u (unat port))))))
            w)")
  case (fields res v' w')
  from name2socket_loop_events [OF fields]
  obtain evs where
    "trace w' = trace w @ Ev_getaddrinfo (server_name v) (take 6 (fmt_u (unat port)))
       (fst (sys_getaddrinfo os (trace w) (server_name v) (take 6 (fmt_u (unat port))))) # evs"
    and "list_all n2s_event evs" and "dc = 0 \<longrightarrow> \<not> list_ex is_connect evs"
    by (auto simp: emit_def)
  then show ?thesis
    using fields
    by (auto simp: name2socket_def Let_def emit_def split: prod.splits option.splits)
qed

lemma n2s_event_not_options:
  "list_all n2s_event evs \<Longrightarrow> \<not> list_ex is_set_flow_tcp_options evs"
  by (induction evs) (auto elim: n2s_event.elims)

lemma name2socket_flow:
  "n2s_flow (name2socket os flow port saptr lenp dc rr sr v w) = flow \<or>
   (\<exists>msg. n2s_flow (name2socket os flow port saptr lenp dc rr sr v w) =
      flow\<lparr>error := Some msg\<rparr>)"
  by (auto simp: name2socket_def Let_def flow_error_def split: prod.splits option.splits)

subsection \<open>The parts of add_flow_source\<close>

text \<open>
  What lines 185 to 197 do: \<^verbatim>\<open>name2socket\<close> ends the process, or it fails and the flow
  is rolled back, or it creates a socket and the function goes on to the TCP options with
  a flow whose buffers, settings, identifier and connect flag are untouched. No
  \<^verbatim>\<open>connect\<close> is issued on the way.
\<close>

lemma socket_stage_cases:
  obtains
    (aborted) evs where
      "afs_ret (add_flow_source_socket os request d i flow w) = Aborts"
      "trace (afs_world (add_flow_source_socket os request d i flow w)) = trace w @ evs"
      "list_all n2s_event evs" "\<not> list_ex is_connect evs"
  | (failed) evs flow' msg where
      "afs_ret (add_flow_source_socket os request d i flow w) = Returns (- 1)"
      "trace (afs_world (add_flow_source_socket os request d i flow w)) =
         trace w @ evs @ [Ev_logging_log LOG_ALERT msg, Ev_uninit_flow flow']"
      "list_all n2s_event evs" "\<not> list_ex is_connect evs"
  | (created) evs request' flow' w' where
      "add_flow_source_socket os request d i flow w =
         add_flow_source_options os request' d i flow' w'"
      "trace w' = trace w @ evs" "list_all n2s_event evs" "\<not> list_ex is_connect evs"
      "write_block flow' = write_block flow" "read_block flow' = read_block flow"
      "connect_called flow' = connect_called flow" "settings flow' = settings flow"
      "late_connect (source_settings flow') = late_connect (source_settings flow)"
      "id_f flow' = id_f flow" "pmtu flow' = pmtu flow"
proof -
  define N where "N = name2socket os (flow\<lparr>state := GRIND_WAIT_CONNECT\<rparr>)
       (destination_port (source_settings flow)) (Some (addr flow)) (Some (addr_len flow)) 0
       (requested_read_buffer_size (settings flow)) (requested_send_buffer_size (settings flow))
       \<lparr>server_name = destination_host (source_settings flow),
        send_buffer_size = Some (real_send_buffer_size request),
        read_buffer_size = Some (real_read_buffer_size request)\<rparr> w"
  obtain evs where tr: "trace (n2s_world N) = trace w @ evs" and n: "list_all n2s_event evs"
    and q: "\<not> list_ex is_connect evs"
    unfolding N_def using name2socket_events [of os _ _ _ _ 0] by blast
  have fl: "n2s_flow N = flow\<lparr>state := GRIND_WAIT_CONNECT\<rparr> \<or>
      (\<exists>msg. n2s_flow N = flow\<lparr>state := GRIND_WAIT_CONNECT, error := Some msg\<rparr>)"
    unfolding N_def using name2socket_flow [of os "flow\<lparr>state := GRIND_WAIT_CONNECT\<rparr>"] by simp
  show thesis
  proof (cases "n2s_ret N")
    case Aborts
    show thesis
      by (rule aborted [of evs])
        (simp_all add: add_flow_source_socket_def Let_def N_def [symmetric] Aborts tr n q)
  next
    case (Returns sockfd)
    show thesis
    proof (cases "sockfd = - 1")
      case True
      show thesis
        by (rule failed [of evs])
          (simp_all add: add_flow_source_socket_def Let_def N_def [symmetric] Returns True tr n q
            logging_log_def uninit_flow_def emit_def)
    next
      case False
      show thesis
      proof (rule created [where evs = evs and w' = "n2s_world N"
            and flow' = "(n2s_flow N)
                    \<lparr>source_settings := (source_settings (n2s_flow N))
                       \<lparr>destination_host := server_name (n2s_vars N)\<rparr>,
                     addr := deref (n2s_saptr N) (addr flow),
                     addr_len := deref (n2s_lenp N) (addr_len flow), fd := sockfd\<rparr>"
            and request' = "request
                    \<lparr>real_read_buffer_size :=
                       deref (read_buffer_size (n2s_vars N)) (real_read_buffer_size request),
                     real_send_buffer_size :=
                       deref (send_buffer_size (n2s_vars N)) (real_send_buffer_size request)\<rparr>"])
        show "add_flow_source_socket os request d i flow w =
          add_flow_source_options os
            (request
                    \<lparr>real_read_buffer_size :=
                       deref (read_buffer_size (n2s_vars N)) (real_read_buffer_size request),
                     real_send_buffer_size :=
                       deref (send_buffer_size (n2s_vars N)) (real_send_buffer_size request)\<rparr>)
            d i
            ((n2s_flow N)
                    \<lparr>source_settings := (source_settings (n2s_flow N))
                       \<lparr>destination_host := server_name (n2s_vars N)\<rparr>,
                     addr := deref (n2s_saptr N) (addr flow),
                     addr_len := deref (n2s_lenp N) (addr_len flow), fd := sockfd\<rparr>)
            (n2s_world N)"
          by (simp add: add_flow_source_socket_def Let_def N_def [symmetric] Returns False)
      qed (use fl tr n q in auto)
    qed
  qed
qed

text \<open>
  What lines 157 to 183 do: the table is full, or an allocation fails and the flow is rolled
  back, or both buffers are there and the function goes on to create the socket.
\<close>

lemma add_flow_source_cases:
  obtains
    (full) "MAX_FLOWS \<le> num_flows d"
      "afs_ret (add_flow_source MAX_FLOWS os request d w) = Returns (- 1)"
      "\<exists>msg. trace (afs_world (add_flow_source MAX_FLOWS os request d w)) =
         trace w @ [Ev_logging_log LOG_WARNING msg]"
  | (no_memory) okw okr flow' msg where
      "num_flows d < MAX_FLOWS"
      "afs_ret (add_flow_source MAX_FLOWS os request d w) = Returns (- 1)"
      "trace (afs_world (add_flow_source MAX_FLOWS os request d w)) =
         trace w @ [Ev_init_flow 1,
           Ev_calloc 1 (size_t_of_int (maximum_block_size (rq_settings request))) okw,
           Ev_calloc 1 (size_t_of_int (maximum_block_size (rq_settings request))) okr,
           Ev_logging_log LOG_ALERT msg, Ev_uninit_flow flow']"
      "\<not> okw \<or> \<not> okr"
  | (allocated) flow' w' where
      "num_flows d < MAX_FLOWS"
      "add_flow_source MAX_FLOWS os request d w =
         add_flow_source_socket os request
           (d\<lparr>num_flows := num_flows d + 1, next_flow_id := next_flow_id d + 1\<rparr>)
           (num_flows d) flow' w'"
      "trace w' = trace w @ [Ev_init_flow 1,
           Ev_calloc 1 (size_t_of_int (maximum_block_size (rq_settings request))) True,
           Ev_calloc 1 (size_t_of_int (maximum_block_size (rq_settings request))) True]"
      "write_block flow' =
         Some (if byte_counting (rq_settings request) \<noteq> 0
               then write_block_fill 0 (maximum_block_size (rq_settings request))
                      (replicate (size_t_of_int (maximum_block_size (rq_settings request))) 0)
               else replicate (size_t_of_int (maximum_block_size (rq_settings request))) 0)"
      "read_block flow' =
         Some (replicate (size_t_of_int (maximum_block_size (rq_settings request))) 0)"
      "connect_called flow' = 0" "settings flow' = rq_settings request"
      "source_settings flow' = rq_source_settings request" "id_f flow' = next_flow_id d"
proof (cases "MAX_FLOWS \<le> num_flows d")
  case True
  show thesis
    by (rule full) (simp_all add: True add_flow_source_def Let_def logging_log_def emit_def)
next
  case False
  let ?sz = "size_t_of_int (maximum_block_size (rq_settings request))"
  let ?h1 = "trace w @ [Ev_init_flow 1]"
  let ?F = "(init_flow (flows d (num_flows d)) 1 (next_flow_id d))
      \<lparr>settings := rq_settings request, source_settings := rq_source_settings request,
       write_block := Some (replicate ?sz 0), read_block := Some (replicate ?sz 0)\<rparr>"
  let ?okw = "sys_calloc os ?h1 1 ?sz"
  let ?okr = "sys_calloc os (?h1 @ [Ev_calloc 1 ?sz ?okw]) 1 ?sz"
  show thesis
  proof (cases "?okw \<and> ?okr")
    case True
    then have okw: ?okw
      by simp
    have okr: "sys_calloc os (?h1 @ [Ev_calloc 1 ?sz True]) 1 ?sz"
      using okw True by simp
    show thesis
    proof (rule allocated [where
          w' = "w\<lparr>trace := trace w @ [Ev_init_flow 1, Ev_calloc 1 ?sz True, Ev_calloc 1 ?sz True]\<rparr>"
          and flow' = "if byte_counting (rq_settings request) \<noteq> 0
            then ?F\<lparr>write_block := map_option
                   (write_block_fill 0 (maximum_block_size (rq_settings request)))
                   (write_block ?F)\<rparr>
            else ?F"])
    qed (use False okw okr in \<open>simp_all add: add_flow_source_def Let_def calloc_def emit_def
          init_flow_def\<close>)
  next
    case no: False
    show thesis
    proof (rule no_memory [where okw = ?okw and okr = ?okr
          and flow' = "(init_flow (flows d (num_flows d)) 1 (next_flow_id d))
            \<lparr>settings := rq_settings request, source_settings := rq_source_settings request,
             write_block := if ?okw then Some (replicate ?sz 0) else None,
             read_block := if ?okr then Some (replicate ?sz 0) else None\<rparr>"])
      show "\<not> ?okw \<or> \<not> ?okr"
        using no by simp
    qed (use False no in \<open>auto simp add: add_flow_source_def Let_def calloc_def emit_def
          init_flow_def logging_log_def uninit_flow_def\<close>)
  qed
qed

subsection \<open>Failure after the slot was taken\<close>

lemma connect_stage_ret:
  "afs_ret (add_flow_source_connect os request d i flow w) = Returns 0"
  by (simp add: add_flow_source_connect_def Let_def split: prod.splits)

lemma options_stage_rollback:
  assumes "afs_ret (add_flow_source_options os request d i flow w) = Returns (- 1)"
  shows "rolled_back d i (add_flow_source_options os request d i flow w)"
  using assms
  by (auto simp: add_flow_source_options_def rolled_back_def connect_stage_ret Let_def slot_def
        uninit_flow_def emit_def split: prod.splits if_splits)

lemma socket_stage_rollback:
  assumes "afs_ret (add_flow_source_socket os request d i flow w) = Returns (- 1)"
  shows "rolled_back d i (add_flow_source_socket os request d i flow w)"
  using assms
  unfolding add_flow_source_socket_def Let_def
  by (auto simp: options_stage_rollback split: outcome.splits if_splits)
    (auto simp: rolled_back_def slot_def uninit_flow_def emit_def)

text \<open>
  C1. Whenever \<open>add_flow_source\<close> returns \<open>-1\<close> after it has taken a slot (the table
  was not full), whatever step failed: \<open>num_flows\<close> is what it was before the call, the
  slots that were live are untouched, and the last thing the call did to the outside was
  \<^verbatim>\<open>uninit_flow\<close> on the flow it had been building, which lies in the slot just past the
  live ones.
\<close>

theorem add_flow_source_failure_rolls_back:
  assumes "num_flows d < MAX_FLOWS"
    and "afs_ret (add_flow_source MAX_FLOWS os request d w) = Returns (- 1)"
  shows "num_flows (afs_daemon (add_flow_source MAX_FLOWS os request d w)) = num_flows d \<and>
         (\<forall>j < num_flows d.
            flows (afs_daemon (add_flow_source MAX_FLOWS os request d w)) j = flows d j) \<and>
         trace (afs_world (add_flow_source MAX_FLOWS os request d w)) \<noteq> [] \<and>
         last (trace (afs_world (add_flow_source MAX_FLOWS os request d w))) =
           Ev_uninit_flow
             (flows (afs_daemon (add_flow_source MAX_FLOWS os request d w)) (num_flows d))"
proof -
  let ?d2 = "d\<lparr>num_flows := num_flows d + 1, next_flow_id := next_flow_id d + 1\<rparr>"
  have "rolled_back ?d2 (num_flows d) (add_flow_source MAX_FLOWS os request d w)"
    using assms
    unfolding add_flow_source_def Let_def
    by (auto simp: socket_stage_rollback split: prod.splits if_splits)
      (auto simp: rolled_back_def slot_def uninit_flow_def emit_def logging_log_def)
  then show ?thesis
    by (simp add: rolled_back_def)
qed

theorem add_flow_source_failure_rolls_back_witness:
  "num_flows ex_daemon < 4 \<and>
   afs_ret (add_flow_source 4 ex_os_no_socket ex_request ex_daemon ex_world) = Returns (- 1) \<and>
   num_flows (afs_daemon (add_flow_source 4 ex_os_no_socket ex_request ex_daemon ex_world)) = 0 \<and>
   last (trace (afs_world (add_flow_source 4 ex_os_no_socket ex_request ex_daemon ex_world))) =
     Ev_uninit_flow
       (flows (afs_daemon (add_flow_source 4 ex_os_no_socket ex_request ex_daemon ex_world)) 0)"
proof -
  have free_slot: "num_flows ex_daemon < 4"
    by (simp add: ex_daemon_def)
  have fails: "afs_ret (add_flow_source 4 ex_os_no_socket ex_request ex_daemon ex_world) =
      Returns (- 1)"
    by (simp add: model_defs ex_defs)
  have empty: "num_flows ex_daemon = 0"
    by (simp add: ex_daemon_def)
  show ?thesis
    using add_flow_source_failure_rolls_back [OF free_slot fails] free_slot fails empty
    by simp
qed

subsection \<open>A full table\<close>

text \<open>
  C2. When the table is full (\<open>MAX_FLOWS \<le> num_flows\<close>), \<open>add_flow_source\<close> returns
  \<open>-1\<close>, the request carries the capacity message as its error and is otherwise the
  request that was passed in (so \<open>flow_id\<close> and the two real buffer sizes are
  unchanged), and the daemon's state, \<open>num_flows\<close> and the flow table, is unchanged.
\<close>

theorem add_flow_source_full_table:
  assumes "MAX_FLOWS \<le> num_flows d"
  shows "afs_ret (add_flow_source MAX_FLOWS os request d w) = Returns (- 1) \<and>
         afs_request (add_flow_source MAX_FLOWS os request d w) =
           request\<lparr>r_error :=
             Some ''Can not accept another flow, already handling MAX_FLOW flows.''\<rparr> \<and>
         flow_id (afs_request (add_flow_source MAX_FLOWS os request d w)) = flow_id request \<and>
         real_read_buffer_size (afs_request (add_flow_source MAX_FLOWS os request d w)) =
           real_read_buffer_size request \<and>
         real_send_buffer_size (afs_request (add_flow_source MAX_FLOWS os request d w)) =
           real_send_buffer_size request \<and>
         afs_daemon (add_flow_source MAX_FLOWS os request d w) = d"
  using assms by (simp add: add_flow_source_def Let_def request_error_def)

theorem add_flow_source_full_table_witness:
  "(2::nat) \<le> num_flows (ex_daemon\<lparr>num_flows := 2\<rparr>) \<and>
   afs_ret (add_flow_source 2 ex_os ex_request (ex_daemon\<lparr>num_flows := 2\<rparr>) ex_world) =
     Returns (- 1) \<and>
   flow_id (afs_request
     (add_flow_source 2 ex_os ex_request (ex_daemon\<lparr>num_flows := 2\<rparr>) ex_world)) = - 7 \<and>
   afs_daemon (add_flow_source 2 ex_os ex_request (ex_daemon\<lparr>num_flows := 2\<rparr>) ex_world) =
     ex_daemon\<lparr>num_flows := 2\<rparr>"
proof -
  have full: "(2::nat) \<le> num_flows (ex_daemon\<lparr>num_flows := 2\<rparr>)"
    by simp
  have "flow_id ex_request = - 7"
    by (simp add: ex_request_def)
  then show ?thesis
    using add_flow_source_full_table [OF full, of ex_os ex_request ex_world] full
    by simp
qed

subsection \<open>Late connect\<close>

lemma options_stage_quiet:
  assumes "late_connect (source_settings flow) \<noteq> 0"
  shows "(\<exists>evs. trace (afs_world (add_flow_source_options os request d i flow w)) =
              trace w @ evs \<and> \<not> list_ex is_connect evs) \<and>
         (afs_ret (add_flow_source_options os request d i flow w) = Returns 0 \<longrightarrow>
          connect_called (flows (afs_daemon (add_flow_source_options os request d i flow w)) i) =
            connect_called flow)"
  using assms
  by (auto simp: add_flow_source_options_def add_flow_source_connect_def Let_def
        emit_def uninit_flow_def slot_def split: prod.splits)

text \<open>
  C6. For a request with the late-connect flag set, \<open>add_flow_source\<close> issues no
  \<^verbatim>\<open>connect\<close> at all, whatever it returns: none of the events it adds to the trace is a
  connect (\<^verbatim>\<open>name2socket\<close> is called with \<^verbatim>\<open>do_connect = 0\<close> and the early connect
  is skipped). When it returns success, the \<open>connect_called\<close> flag of the admitted flow
  is 0. That such a request can succeed is shown at the concrete input below.
\<close>

theorem add_flow_source_late_connect:
  assumes "late_connect (rq_source_settings request) \<noteq> 0"
  shows "\<not> list_ex is_connect
            (new_events w (afs_world (add_flow_source MAX_FLOWS os request d w))) \<and>
         (afs_ret (add_flow_source MAX_FLOWS os request d w) = Returns 0 \<longrightarrow>
          connect_called (flows (afs_daemon (add_flow_source MAX_FLOWS os request d w))
            (num_flows d)) = 0)"
proof (cases MAX_FLOWS os request d w rule: add_flow_source_cases)
  case full
  then show ?thesis by auto
next
  case (no_memory okw okr flow' msg)
  then show ?thesis by simp
next
  case (allocated flow1 w1)
  let ?d = "d\<lparr>num_flows := num_flows d + 1, next_flow_id := next_flow_id d + 1\<rparr>"
  show ?thesis
  proof (cases os request ?d "num_flows d" flow1 w1 rule: socket_stage_cases)
    case (aborted evs)
    with allocated show ?thesis by simp
  next
    case (failed evs flow' msg)
    with allocated show ?thesis by simp
  next
    case (created evs request' flow2 w2)
    from assms allocated created have "late_connect (source_settings flow2) \<noteq> 0"
      by simp
    from options_stage_quiet [OF this, of os request' ?d "num_flows d" w2]
    show ?thesis
      using allocated created by auto
  qed
qed

theorem add_flow_source_late_connect_witness:
  "late_connect (rq_source_settings ex_request_late) \<noteq> 0 \<and>
   afs_ret (add_flow_source 4 ex_os ex_request_late ex_daemon ex_world) = Returns 0 \<and>
   \<not> list_ex is_connect
       (new_events ex_world (afs_world (add_flow_source 4 ex_os ex_request_late ex_daemon ex_world))) \<and>
   connect_called (flows (afs_daemon (add_flow_source 4 ex_os ex_request_late ex_daemon ex_world)) 0)
     = 0"
proof -
  have late: "late_connect (rq_source_settings ex_request_late) \<noteq> 0"
    by (simp add: ex_request_late_def)
  have admitted: "afs_ret (add_flow_source 4 ex_os ex_request_late ex_daemon ex_world) = Returns 0"
    by (simp add: model_defs ex_defs)
  have empty: "num_flows ex_daemon = 0"
    by (simp add: ex_daemon_def)
  show ?thesis
    using add_flow_source_late_connect [OF late, of ex_world 4 ex_os ex_daemon] late admitted empty
    by simp
qed

subsection \<open>The early connect\<close>

lemma options_stage_eager:
  assumes "late_connect (source_settings flow) = 0"
    and "afs_ret (add_flow_source_options os request d i flow w) = Returns 0"
  shows "\<exists>evs res. trace (afs_world (add_flow_source_options os request d i flow w)) =
           trace w @ evs @
             [Ev_connect (fd flow) (addr flow) (addr_len flow) res,
              Ev_get_pmtu (fd flow)
                (pmtu (flows (afs_daemon (add_flow_source_options os request d i flow w)) i))] \<and>
           \<not> list_ex is_connect evs \<and>
           fd (flows (afs_daemon (add_flow_source_options os request d i flow w)) i) = fd flow \<and>
           addr (flows (afs_daemon (add_flow_source_options os request d i flow w)) i) =
             addr flow \<and>
           addr_len (flows (afs_daemon (add_flow_source_options os request d i flow w)) i) =
             addr_len flow \<and>
           connect_called (flows (afs_daemon (add_flow_source_options os request d i flow w)) i)
             = 1"
  using assms
  by (auto simp: add_flow_source_options_def add_flow_source_connect_def Let_def
        emit_def uninit_flow_def slot_def connect_def split: prod.splits if_splits)

lemma early_connect_on_success:
  assumes "late_connect (rq_source_settings request) = 0"
    and "afs_ret (add_flow_source MAX_FLOWS os request d w) = Returns 0"
  shows "connect_called
           (flows (afs_daemon (add_flow_source MAX_FLOWS os request d w)) (num_flows d)) = 1 \<and>
         (\<exists>res. filter is_connect
                  (new_events w (afs_world (add_flow_source MAX_FLOWS os request d w))) =
            [Ev_connect
               (fd (flows (afs_daemon (add_flow_source MAX_FLOWS os request d w)) (num_flows d)))
               (addr (flows (afs_daemon (add_flow_source MAX_FLOWS os request d w)) (num_flows d)))
               (addr_len
                 (flows (afs_daemon (add_flow_source MAX_FLOWS os request d w)) (num_flows d)))
               res]) \<and>
         last (trace (afs_world (add_flow_source MAX_FLOWS os request d w))) =
           Ev_get_pmtu
             (fd (flows (afs_daemon (add_flow_source MAX_FLOWS os request d w)) (num_flows d)))
             (pmtu (flows (afs_daemon (add_flow_source MAX_FLOWS os request d w)) (num_flows d)))"
proof (cases MAX_FLOWS os request d w rule: add_flow_source_cases)
  case full
  with assms show ?thesis by auto
next
  case (no_memory okw okr flow' msg)
  with assms show ?thesis by auto
next
  case (allocated flow1 w1)
  let ?d = "d\<lparr>num_flows := num_flows d + 1, next_flow_id := next_flow_id d + 1\<rparr>"
  show ?thesis
  proof (cases os request ?d "num_flows d" flow1 w1 rule: socket_stage_cases)
    case (aborted evs)
    with assms allocated show ?thesis by simp
  next
    case (failed evs flow' msg)
    with assms allocated show ?thesis by simp
  next
    case (created evs request' flow2 w2)
    have late: "late_connect (source_settings flow2) = 0"
      using assms allocated created by simp
    have ok: "afs_ret (add_flow_source_options os request' ?d (num_flows d) flow2 w2) = Returns 0"
      using assms allocated created by simp
    from options_stage_eager [OF late ok]
    show ?thesis
      using allocated created
      by (auto simp: filter_empty_conv list_ex_iff)
  qed
qed

lemma options_stage_connect_ignored:
  "\<exists>rc e evs. trace (afs_world (add_flow_source_options os request d i flow w)) =
       trace w @ Ev_set_flow_tcp_options flow rc e # evs \<and>
     \<not> list_ex is_set_flow_tcp_options evs \<and>
     (list_ex is_connect evs \<longrightarrow>
        afs_ret (add_flow_source_options os request d i flow w) = Returns 0 \<and>
        error (flows (afs_daemon (add_flow_source_options os request d i flow w)) i) = e)"
  by (auto simp: add_flow_source_options_def add_flow_source_connect_def Let_def
        emit_def uninit_flow_def slot_def connect_def split: prod.splits)

text \<open>
  C3, as the code has it. With the late-connect flag off: \<open>add_flow_source\<close> returns
  success only after it has issued exactly one \<^verbatim>\<open>connect\<close>, on the socket and to the
  address of the flow; on success the flow has \<open>connect_called = 1\<close>, and the last call
  was \<^verbatim>\<open>get_pmtu\<close>, whose answer is the flow's \<open>pmtu\<close>. And the result of the connect
  is not looked at: whenever a \<^verbatim>\<open>connect\<close> was issued during the call, whatever its
  result \<open>res\<close> (success or any \<^verbatim>\<open>errno\<close>), the call returns 0, and the error field
  of the admitted flow is what \<^verbatim>\<open>set_flow_tcp_options\<close> left there, so the connect
  attaches no error.
\<close>

theorem add_flow_source_early_connect:
  assumes "late_connect (rq_source_settings request) = 0"
  shows "(afs_ret (add_flow_source MAX_FLOWS os request d w) = Returns 0 \<longrightarrow>
          connect_called
            (flows (afs_daemon (add_flow_source MAX_FLOWS os request d w)) (num_flows d)) = 1 \<and>
          (\<exists>res. filter is_connect
                   (new_events w (afs_world (add_flow_source MAX_FLOWS os request d w))) =
             [Ev_connect
                (fd (flows (afs_daemon (add_flow_source MAX_FLOWS os request d w)) (num_flows d)))
                (addr (flows (afs_daemon (add_flow_source MAX_FLOWS os request d w)) (num_flows d)))
                (addr_len
                  (flows (afs_daemon (add_flow_source MAX_FLOWS os request d w)) (num_flows d)))
                res]) \<and>
          last (trace (afs_world (add_flow_source MAX_FLOWS os request d w))) =
            Ev_get_pmtu
              (fd (flows (afs_daemon (add_flow_source MAX_FLOWS os request d w)) (num_flows d)))
              (pmtu (flows (afs_daemon (add_flow_source MAX_FLOWS os request d w)) (num_flows d)))) \<and>
         (\<forall>s a len res.
            Ev_connect s a len res \<in>
              set (new_events w (afs_world (add_flow_source MAX_FLOWS os request d w))) \<longrightarrow>
            afs_ret (add_flow_source MAX_FLOWS os request d w) = Returns 0 \<and>
            (\<forall>flow rc e.
               Ev_set_flow_tcp_options flow rc e \<in>
                 set (new_events w (afs_world (add_flow_source MAX_FLOWS os request d w))) \<longrightarrow>
               error (flows (afs_daemon (add_flow_source MAX_FLOWS os request d w)) (num_flows d))
                 = e))"
proof (intro conjI impI allI)
  assume "afs_ret (add_flow_source MAX_FLOWS os request d w) = Returns 0"
  from early_connect_on_success [OF assms this]
  show "connect_called
            (flows (afs_daemon (add_flow_source MAX_FLOWS os request d w)) (num_flows d)) = 1"
    and "\<exists>res. filter is_connect
                   (new_events w (afs_world (add_flow_source MAX_FLOWS os request d w))) =
             [Ev_connect
                (fd (flows (afs_daemon (add_flow_source MAX_FLOWS os request d w)) (num_flows d)))
                (addr (flows (afs_daemon (add_flow_source MAX_FLOWS os request d w)) (num_flows d)))
                (addr_len
                  (flows (afs_daemon (add_flow_source MAX_FLOWS os request d w)) (num_flows d)))
                res]"
    and "last (trace (afs_world (add_flow_source MAX_FLOWS os request d w))) =
            Ev_get_pmtu
              (fd (flows (afs_daemon (add_flow_source MAX_FLOWS os request d w)) (num_flows d)))
              (pmtu (flows (afs_daemon (add_flow_source MAX_FLOWS os request d w)) (num_flows d)))"
    by blast+
next
  fix s a len res
  assume ev: "Ev_connect s a len res \<in>
              set (new_events w (afs_world (add_flow_source MAX_FLOWS os request d w)))"
  have "afs_ret (add_flow_source MAX_FLOWS os request d w) = Returns 0 \<and>
      (\<forall>flow rc e.
               Ev_set_flow_tcp_options flow rc e \<in>
                 set (new_events w (afs_world (add_flow_source MAX_FLOWS os request d w))) \<longrightarrow>
               error (flows (afs_daemon (add_flow_source MAX_FLOWS os request d w)) (num_flows d))
                 = e)"
  proof (cases MAX_FLOWS os request d w rule: add_flow_source_cases)
    case full
    with ev show ?thesis by auto
  next
    case (no_memory okw okr flow' msg)
    with ev show ?thesis by auto
  next
    case (allocated flow1 w1)
    let ?d = "d\<lparr>num_flows := num_flows d + 1, next_flow_id := next_flow_id d + 1\<rparr>"
    show ?thesis
    proof (cases os request ?d "num_flows d" flow1 w1 rule: socket_stage_cases)
      case (aborted evs)
      with ev allocated show ?thesis
        by (auto simp: list_ex_iff)
    next
      case (failed evs flow' msg)
      with ev allocated show ?thesis
        by (auto simp: list_ex_iff)
    next
      case (created evs request' flow2 w2)
      from options_stage_connect_ignored [of os request' ?d "num_flows d" flow2 w2]
      obtain rc e' evs' where
        tr: "trace (afs_world (add_flow_source_options os request' ?d (num_flows d) flow2 w2)) =
          trace w2 @ Ev_set_flow_tcp_options flow2 rc e' # evs'"
        and no: "\<not> list_ex is_set_flow_tcp_options evs'"
        and ig: "list_ex is_connect evs' \<longrightarrow>
          afs_ret (add_flow_source_options os request' ?d (num_flows d) flow2 w2) = Returns 0 \<and>
          error (flows (afs_daemon (add_flow_source_options os request' ?d (num_flows d) flow2 w2))
            (num_flows d)) = e'"
        by blast
      have new: "new_events w (afs_world (add_flow_source MAX_FLOWS os request d w)) =
          Ev_init_flow 1 #
          Ev_calloc 1 (size_t_of_int (maximum_block_size (rq_settings request))) True #
          Ev_calloc 1 (size_t_of_int (maximum_block_size (rq_settings request))) True #
          evs @ Ev_set_flow_tcp_options flow2 rc e' # evs'"
        using allocated created tr by simp
      from ev created(4) have "Ev_connect s a len res \<in> set evs'"
        unfolding new by (auto simp: list_ex_iff)
      then have "list_ex is_connect evs'"
        unfolding list_ex_iff by (intro bexI [of _ "Ev_connect s a len res"]) simp_all
      with ig have ok: "afs_ret (add_flow_source_options os request' ?d (num_flows d) flow2 w2) =
            Returns 0"
        and er: "error (flows (afs_daemon (add_flow_source_options os request' ?d (num_flows d)
            flow2 w2)) (num_flows d)) = e'"
        by simp_all
      have only: "e = e'" if "Ev_set_flow_tcp_options flow rc' e \<in>
          set (new_events w (afs_world (add_flow_source MAX_FLOWS os request d w)))" for flow rc' e
        using that no n2s_event_not_options [OF created(3)]
        unfolding new by (auto simp: list_ex_iff)
      show ?thesis
        using ok er only allocated(2) created(1) by auto
    qed
  qed
  then show "afs_ret (add_flow_source MAX_FLOWS os request d w) = Returns 0"
    and "\<And>flow rc e. Ev_set_flow_tcp_options flow rc e \<in>
                 set (new_events w (afs_world (add_flow_source MAX_FLOWS os request d w))) \<Longrightarrow>
               error (flows (afs_daemon (add_flow_source MAX_FLOWS os request d w)) (num_flows d))
                 = e"
    by blast+
qed

theorem add_flow_source_early_connect_witness:
  "late_connect (rq_source_settings ex_request) = 0 \<and>
   Ev_connect 3 (Some (Sockaddr_in6 (In6_addr 0 0 0 0 0 0 0 1))) 28 (Err 110) \<in>
     set (new_events ex_world
            (afs_world (add_flow_source 4 ex_os_timeout ex_request ex_daemon ex_world))) \<and>
   afs_ret (add_flow_source 4 ex_os_timeout ex_request ex_daemon ex_world) = Returns 0 \<and>
   connect_called
     (flows (afs_daemon (add_flow_source 4 ex_os_timeout ex_request ex_daemon ex_world)) 0) = 1 \<and>
   last (trace (afs_world (add_flow_source 4 ex_os_timeout ex_request ex_daemon ex_world))) =
     Ev_get_pmtu
       (fd (flows (afs_daemon (add_flow_source 4 ex_os_timeout ex_request ex_daemon ex_world)) 0))
       (pmtu (flows (afs_daemon (add_flow_source 4 ex_os_timeout ex_request ex_daemon ex_world)) 0))"
proof -
  have early: "late_connect (rq_source_settings ex_request) = 0"
    by (simp add: ex_request_def)
  have timed_out:
    "Ev_connect 3 (Some (Sockaddr_in6 (In6_addr 0 0 0 0 0 0 0 1))) 28 (Err 110) \<in>
       set (new_events ex_world
              (afs_world (add_flow_source 4 ex_os_timeout ex_request ex_daemon ex_world)))"
    by (simp add: model_defs ex_defs new_events_def)
  have empty: "num_flows ex_daemon = 0"
    by (simp add: ex_daemon_def)
  note ignored = add_flow_source_early_connect [OF early, of 4 ex_os_timeout ex_daemon ex_world]
  from ignored timed_out
  have admitted: "afs_ret (add_flow_source 4 ex_os_timeout ex_request ex_daemon ex_world) = Returns 0"
    by blast
  with ignored empty early timed_out show ?thesis
    by simp
qed

text \<open>
  C3, as it is stated, fails: the peer refuses the early connect (\<^verbatim>\<open>connect\<close> returns
  \<open>-1\<close> with \<^verbatim>\<open>ECONNREFUSED\<close>, 111), and still the admission returns 0 and the flow has
  no error attached.
\<close>

theorem add_flow_source_early_connect_refused:
  "late_connect (rq_source_settings ex_request) = 0 \<and>
   Ev_connect 3 (Some (Sockaddr_in6 (In6_addr 0 0 0 0 0 0 0 1))) 28 (Err 111) \<in>
     set (trace (afs_world (add_flow_source 4 ex_os_refused ex_request ex_daemon ex_world))) \<and>
   afs_ret (add_flow_source 4 ex_os_refused ex_request ex_daemon ex_world) = Returns 0 \<and>
   error (flows (afs_daemon (add_flow_source 4 ex_os_refused ex_request ex_daemon ex_world)) 0) =
     None"
  by (simp add: model_defs ex_defs)

subsection \<open>Failure of set_flow_tcp_options\<close>

lemma options_stage_moves_error:
  "\<exists>rc e evs. trace (afs_world (add_flow_source_options os request d i flow w)) =
       trace w @ Ev_set_flow_tcp_options flow rc e # evs \<and>
     \<not> list_ex is_set_flow_tcp_options evs \<and>
     (rc = - 1 \<longrightarrow>
        afs_ret (add_flow_source_options os request d i flow w) = Returns (- 1) \<and>
        r_error (afs_request (add_flow_source_options os request d i flow w)) = e \<and>
        evs = [Ev_uninit_flow (flow\<lparr>error := None\<rparr>)] \<and>
        flows (afs_daemon (add_flow_source_options os request d i flow w)) i =
          flow\<lparr>error := None\<rparr> \<and>
        num_flows (afs_daemon (add_flow_source_options os request d i flow w)) =
          num_flows d - 1)"
  by (auto simp: add_flow_source_options_def add_flow_source_connect_def Let_def
        emit_def uninit_flow_def slot_def connect_def split: prod.splits)

text \<open>
  C9. Whenever \<^verbatim>\<open>set_flow_tcp_options\<close> returns \<open>-1\<close> during \<open>add_flow_source\<close>,
  called on \<open>flow\<close> and leaving \<open>e\<close> as the flow's error: the call returns \<open>-1\<close>, the
  error of the request is exactly \<open>e\<close>, and the flow that is handed to \<^verbatim>\<open>uninit_flow\<close>
  (the last call made) and that is left in the slot has its own error field null, all
  other fields as they were. The count of flows is restored.
\<close>

theorem add_flow_source_options_error_moved:
  assumes "Ev_set_flow_tcp_options flow (- 1) e \<in>
             set (new_events w (afs_world (add_flow_source MAX_FLOWS os request d w)))"
  shows "afs_ret (add_flow_source MAX_FLOWS os request d w) = Returns (- 1) \<and>
         r_error (afs_request (add_flow_source MAX_FLOWS os request d w)) = e \<and>
         last (trace (afs_world (add_flow_source MAX_FLOWS os request d w))) =
           Ev_uninit_flow (flow\<lparr>error := None\<rparr>) \<and>
         flows (afs_daemon (add_flow_source MAX_FLOWS os request d w)) (num_flows d) =
           flow\<lparr>error := None\<rparr> \<and>
         num_flows (afs_daemon (add_flow_source MAX_FLOWS os request d w)) = num_flows d"
proof (cases MAX_FLOWS os request d w rule: add_flow_source_cases)
  case full
  with assms show ?thesis by auto
next
  case (no_memory okw okr flow' msg)
  with assms show ?thesis by auto
next
  case (allocated flow1 w1)
  let ?d = "d\<lparr>num_flows := num_flows d + 1, next_flow_id := next_flow_id d + 1\<rparr>"
  show ?thesis
  proof (cases os request ?d "num_flows d" flow1 w1 rule: socket_stage_cases)
    case (aborted evs)
    with assms allocated n2s_event_not_options [of evs] show ?thesis
      by (auto simp: list_ex_iff)
  next
    case (failed evs flow' msg)
    with assms allocated n2s_event_not_options [of evs] show ?thesis
      by (auto simp: list_ex_iff)
  next
    case (created evs request' flow2 w2)
    from options_stage_moves_error [of os request' ?d "num_flows d" flow2 w2]
    obtain rc e' evs' where
      tr: "trace (afs_world (add_flow_source_options os request' ?d (num_flows d) flow2 w2)) =
        trace w2 @ Ev_set_flow_tcp_options flow2 rc e' # evs'"
      and no: "\<not> list_ex is_set_flow_tcp_options evs'"
      and mv: "rc = - 1 \<longrightarrow>
        afs_ret (add_flow_source_options os request' ?d (num_flows d) flow2 w2) =
          Returns (- 1) \<and>
        r_error (afs_request (add_flow_source_options os request' ?d (num_flows d) flow2 w2)) =
          e' \<and>
        evs' = [Ev_uninit_flow (flow2\<lparr>error := None\<rparr>)] \<and>
        flows (afs_daemon (add_flow_source_options os request' ?d (num_flows d) flow2 w2))
          (num_flows d) = flow2\<lparr>error := None\<rparr> \<and>
        num_flows (afs_daemon (add_flow_source_options os request' ?d (num_flows d) flow2 w2)) =
          num_flows ?d - 1"
      by blast
    have "Ev_set_flow_tcp_options flow (- 1) e \<in>
        set (evs @ Ev_set_flow_tcp_options flow2 rc e' # evs')"
      using assms allocated created tr by simp
    with no n2s_event_not_options [OF created(3)]
    have "flow = flow2 \<and> rc = - 1 \<and> e' = e"
      by (auto simp: list_ex_iff)
    with mv tr show ?thesis
      using allocated created by simp
  qed
qed

theorem add_flow_source_options_error_moved_witness:
  "Ev_set_flow_tcp_options
     (flows (afs_daemon (add_flow_source 4 ex_os_no_options ex_request ex_daemon ex_world)) 0)
     (- 1) (Some ''Unable to set TCP_NODELAY'') \<in>
     set (new_events ex_world
            (afs_world (add_flow_source 4 ex_os_no_options ex_request ex_daemon ex_world))) \<and>
   afs_ret (add_flow_source 4 ex_os_no_options ex_request ex_daemon ex_world) = Returns (- 1) \<and>
   r_error (afs_request (add_flow_source 4 ex_os_no_options ex_request ex_daemon ex_world)) =
     Some ''Unable to set TCP_NODELAY'' \<and>
   error (flows (afs_daemon (add_flow_source 4 ex_os_no_options ex_request ex_daemon ex_world)) 0) =
     None"
proof -
  have called: "Ev_set_flow_tcp_options
     (flows (afs_daemon (add_flow_source 4 ex_os_no_options ex_request ex_daemon ex_world)) 0)
     (- 1) (Some ''Unable to set TCP_NODELAY'') \<in>
     set (new_events ex_world
            (afs_world (add_flow_source 4 ex_os_no_options ex_request ex_daemon ex_world)))"
    by (simp add: model_defs ex_defs new_events_def)
  have empty: "num_flows ex_daemon = 0"
    by (simp add: ex_daemon_def)
  note moved = add_flow_source_options_error_moved [OF called]
  let ?slot = "flows (afs_daemon (add_flow_source 4 ex_os_no_options ex_request ex_daemon ex_world)) 0"
  from moved empty have "?slot = ?slot\<lparr>error := None\<rparr>"
    by simp
  from arg_cong [OF this, of error] have "error ?slot = None"
    by simp
  with moved called show ?thesis
    by simp
qed

subsection \<open>The buffers of the flow\<close>

lemma sint_succ_below:
  fixes k B :: "32 word"
  assumes "sint k < sint B"
  shows "sint (k + 1) = sint k + 1"
proof -
  have "sint B < 2 ^ 31"
    using sint_lt [of B] by simp
  with assms have upper: "sint k + 1 < 2 ^ 31"
    by linarith
  have lower: "- (2 ^ 31) \<le> sint k + 1"
    using sint_ge [of k] by simp
  have "sint (k + 1) = signed_take_bit 31 (sint k + sint (1::32 word))"
    by (simp add: sint_word_ariths)
  also have "\<dots> = sint k + 1"
    using upper lower by (simp add: signed_take_bit_int_eq_self)
  finally show ?thesis .
qed

lemma uint_of_nonneg_sint:
  fixes k :: "32 word"
  assumes "0 \<le> sint k"
  shows "uint k = sint k"
proof -
  have "sint k < 2 ^ 31" using sint_lt [of k] by simp
  then have "sint k < 2 ^ 32" by simp
  then show ?thesis
    using assms by (simp add: uint_sint take_bit_int_eq_self)
qed

lemma unat_low_byte: "unat (ucast (k AND 0xff :: 32 word) :: 8 word) = unat k mod 256"
proof -
  have "(0xff :: 32 word) = mask 8"
    by (simp add: mask_eq_exp_minus_1)
  then have low: "(k AND 0xff) = take_bit 8 k"
    by (simp only: take_bit_eq_mask)
  have "unat (ucast (take_bit 8 k :: 32 word) :: 8 word) = take_bit 8 (unat (take_bit 8 k))"
    using unsigned_ucast_eq [where ?'c = 8 and ?'b = 32 and ?'a = nat, of "take_bit 8 k"]
    by simp
  also have "\<dots> = take_bit 8 (take_bit 8 (unat k))"
    by (simp only: unsigned_take_bit_eq)
  also have "\<dots> = unat k mod 256"
    by (simp add: take_bit_eq_mod)
  finally show ?thesis
    by (simp only: low)
qed

lemma byte_written:
  fixes k :: "32 word"
  assumes "0 \<le> sint k"
  shows "unat (ucast (k AND 0xff) :: 8 word) = nat (sint k) mod 256"
proof -
  have "unat k = nat (uint k)"
    by (rule unat_eq_nat_uint)
  also have "\<dots> = nat (sint k)"
    by (simp only: uint_of_nonneg_sint [OF assms])
  finally show ?thesis
    by (simp only: unat_low_byte)
qed

lemma write_block_fill_pattern:
  "0 \<le> sint k \<Longrightarrow> sint k \<le> sint B \<Longrightarrow> length block = nat (sint B) \<Longrightarrow>
   length (write_block_fill k B block) = nat (sint B) \<and>
   (\<forall>i. i < nat (sint k) \<longrightarrow> write_block_fill k B block ! i = block ! i) \<and>
   (\<forall>i. nat (sint k) \<le> i \<and> i < nat (sint B) \<longrightarrow>
      unat (write_block_fill k B block ! i) = i mod 256)"
proof (induction k B block rule: write_block_fill.induct)
  case (1 k B block)
  show ?case
  proof (cases "k <s B")
    case False
    then have stop: "write_block_fill k B block = block"
      by (subst write_block_fill.simps) simp
    from False "1.prems" have "sint k = sint B"
      by (simp add: word_sless_alt)
    then show ?thesis
      unfolding stop using "1.prems" by simp
  next
    case True
    then have lt: "sint k < sint B"
      by (simp add: word_sless_alt)
    have suc: "sint (k + 1) = sint k + 1"
      by (rule sint_succ_below [OF lt])
    let ?block = "block[nat (sint k) := ucast (k AND 0xff)]"
    let ?res = "write_block_fill (k + 1) B ?block"
    have step: "write_block_fill k B block = ?res"
      using True by (subst write_block_fill.simps) simp
    have nk: "nat (sint (k + 1)) = Suc (nat (sint k))"
      using suc "1.prems"(1) by simp
    have p1: "0 \<le> sint (k + 1)" and p2: "sint (k + 1) \<le> sint B"
      and p3: "length ?block = nat (sint B)"
      using suc lt "1.prems" by simp_all
    note ih = "1.IH" [OF True p1 p2 p3]
    from ih have len: "length ?res = nat (sint B)"
      by (rule conjunct1)
    from ih have old: "\<And>i. i < Suc (nat (sint k)) \<Longrightarrow> ?res ! i = ?block ! i"
      unfolding nk by blast
    from ih have new: "\<And>i. Suc (nat (sint k)) \<le> i \<Longrightarrow> i < nat (sint B) \<Longrightarrow>
        unat (?res ! i) = i mod 256"
      unfolding nk by blast
    have inside: "nat (sint k) < length block"
      using lt "1.prems" by simp
    have here: "unat (?res ! nat (sint k)) = nat (sint k) mod 256"
      using old [of "nat (sint k)"] inside byte_written [OF "1.prems"(1)] by simp
    show ?thesis
      unfolding step
    proof (intro conjI allI impI)
      show "length ?res = nat (sint B)"
        by (rule len)
    next
      fix i assume "i < nat (sint k)"
      then show "?res ! i = block ! i"
        using old [of i] by simp
    next
      fix i assume a: "nat (sint k) \<le> i \<and> i < nat (sint B)"
      show "unat (?res ! i) = i mod 256"
      proof (cases "i = nat (sint k)")
        case True
        with here show ?thesis by simp
      next
        case False
        with a have "Suc (nat (sint k)) \<le> i" and "i < nat (sint B)"
          by simp_all
        then show ?thesis by (rule new)
      qed
    qed
  qed
qed


lemma size_t_of_int_nonneg:
  assumes "0 \<le> sint B"
  shows "size_t_of_int B = nat (sint B)"
proof -
  have "sint B < 2 ^ 31"
    using sint_lt [of B] by simp
  then have lt: "sint B < 2 ^ 64"
    by simp
  have "uint (scast B :: 64 word) = uint (word_of_int (sint B) :: 64 word)"
    by (simp only: scast_eq)
  also have "\<dots> = take_bit 64 (sint B)"
    using uint_word_of_int_eq [where ?'a = 64, of "sint B"] by simp
  also have "\<dots> = sint B"
    using assms lt by (simp add: take_bit_int_eq_self)
  finally have "nat (uint (scast B :: 64 word)) = nat (sint B)"
    by (rule arg_cong)
  then show ?thesis
    by (simp only: size_t_of_int_def unat_eq_nat_uint)
qed

lemma options_stage_blocks:
  "write_block (flows (afs_daemon (add_flow_source_options os request d i flow w)) i) =
     write_block flow \<and>
   read_block (flows (afs_daemon (add_flow_source_options os request d i flow w)) i) =
     read_block flow"
  by (auto simp: add_flow_source_options_def add_flow_source_connect_def Let_def slot_def
        split: prod.splits)

lemma socket_stage_blocks:
  assumes "afs_ret (add_flow_source_socket os request d i flow w) = Returns 0"
  shows "write_block (flows (afs_daemon (add_flow_source_socket os request d i flow w)) i) =
           write_block flow \<and>
         read_block (flows (afs_daemon (add_flow_source_socket os request d i flow w)) i) =
           read_block flow"
proof (cases os request d i flow w rule: socket_stage_cases)
  case (aborted evs)
  with assms show ?thesis by simp
next
  case (failed evs flow' msg)
  with assms show ?thesis by simp
next
  case (created evs request' flow' w')
  with options_stage_blocks [of os request' d i flow' w'] show ?thesis
    by simp
qed



text \<open>
  C4. For a request with byte counting on and \<open>maximum_block_size = B \<ge> 0\<close>, once both
  allocations have succeeded the function goes on to create the socket with a flow whose
  write buffer is the pattern: \<open>B\<close> bytes, the byte at every offset \<open>i < B\<close> being
  \<open>i mod 256\<close>. When the call returns success, that is the write buffer of the admitted
  flow.
\<close>

theorem add_flow_source_byte_counting_pattern:
  assumes "byte_counting (rq_settings request) \<noteq> 0"
    and "0 \<le> sint (maximum_block_size (rq_settings request))"
    and "num_flows d < MAX_FLOWS"
    and "\<not> list_ex calloc_failed
           (new_events w (afs_world (add_flow_source MAX_FLOWS os request d w)))"
  shows "(\<exists>flow' w'.
            add_flow_source MAX_FLOWS os request d w =
              add_flow_source_socket os request
                (d\<lparr>num_flows := num_flows d + 1, next_flow_id := next_flow_id d + 1\<rparr>)
                (num_flows d) flow' w' \<and>
            write_block flow' =
              Some (write_block_fill 0 (maximum_block_size (rq_settings request))
                (replicate (nat (sint (maximum_block_size (rq_settings request)))) 0))) \<and>
         (afs_ret (add_flow_source MAX_FLOWS os request d w) = Returns 0 \<longrightarrow>
            write_block
              (flows (afs_daemon (add_flow_source MAX_FLOWS os request d w)) (num_flows d)) =
              Some (write_block_fill 0 (maximum_block_size (rq_settings request))
                (replicate (nat (sint (maximum_block_size (rq_settings request)))) 0))) \<and>
         length (write_block_fill 0 (maximum_block_size (rq_settings request))
           (replicate (nat (sint (maximum_block_size (rq_settings request)))) 0)) =
           nat (sint (maximum_block_size (rq_settings request))) \<and>
         (\<forall>i < nat (sint (maximum_block_size (rq_settings request))).
            unat (write_block_fill 0 (maximum_block_size (rq_settings request))
              (replicate (nat (sint (maximum_block_size (rq_settings request)))) 0) ! i) =
            i mod 256)"
proof -
  let ?B = "maximum_block_size (rq_settings request)"
  let ?P = "write_block_fill 0 ?B (replicate (nat (sint ?B)) 0)"
  have sz: "size_t_of_int ?B = nat (sint ?B)"
    by (rule size_t_of_int_nonneg [OF assms(2)])
  have pattern: "length ?P = nat (sint ?B) \<and>
      (\<forall>i. i < nat (sint (0 :: 32 word)) \<longrightarrow> ?P ! i = replicate (nat (sint ?B)) 0 ! i) \<and>
      (\<forall>i. nat (sint (0 :: 32 word)) \<le> i \<and> i < nat (sint ?B) \<longrightarrow> unat (?P ! i) = i mod 256)"
    by (rule write_block_fill_pattern) (use assms(2) in simp_all)
  have bytes: "\<forall>i < nat (sint ?B). unat (?P ! i) = i mod 256"
    using pattern by simp
  show ?thesis
  proof (cases MAX_FLOWS os request d w rule: add_flow_source_cases)
    case full
    with assms(3) show ?thesis by simp
  next
    case (no_memory okw okr flow' msg)
    with assms(4) show ?thesis by auto
  next
    case (allocated flow' w')
    have wb: "write_block flow' = Some ?P"
      using allocated(4) assms(1) sz by simp
    have "write_block (flows (afs_daemon (add_flow_source MAX_FLOWS os request d w)) (num_flows d)) =
        Some ?P"
      if "afs_ret (add_flow_source MAX_FLOWS os request d w) = Returns 0"
      using socket_stage_blocks [of os request _ "num_flows d" flow' w'] that allocated(2) wb
      by simp
    with allocated(2) wb pattern bytes show ?thesis
      by blast
  qed
qed

theorem add_flow_source_byte_counting_pattern_witness:
  "byte_counting (rq_settings ex_request) \<noteq> 0 \<and>
   0 \<le> sint (maximum_block_size (rq_settings ex_request)) \<and>
   num_flows ex_daemon < 4 \<and>
   \<not> list_ex calloc_failed
       (new_events ex_world (afs_world (add_flow_source 4 ex_os ex_request ex_daemon ex_world))) \<and>
   afs_ret (add_flow_source 4 ex_os ex_request ex_daemon ex_world) = Returns 0 \<and>
   write_block (flows (afs_daemon (add_flow_source 4 ex_os ex_request ex_daemon ex_world)) 0) =
     Some (write_block_fill 0 4 (replicate 4 0)) \<and>
   unat (write_block_fill 0 4 (replicate 4 0) ! 3) = 3"
proof -
  have counting: "byte_counting (rq_settings ex_request) \<noteq> 0"
    by (simp add: ex_request_def)
  have size: "maximum_block_size (rq_settings ex_request) = 4"
    by (simp add: ex_request_def)
  have nonneg: "0 \<le> sint (maximum_block_size (rq_settings ex_request))"
    by (simp add: size)
  have free_slot: "num_flows ex_daemon < 4"
    by (simp add: ex_daemon_def)
  have allocated: "\<not> list_ex calloc_failed
      (new_events ex_world (afs_world (add_flow_source 4 ex_os ex_request ex_daemon ex_world)))"
    by (simp add: model_defs ex_defs new_events_def)
  have admitted: "afs_ret (add_flow_source 4 ex_os ex_request ex_daemon ex_world) = Returns 0"
    by (simp add: model_defs ex_defs)
  have empty: "num_flows ex_daemon = 0"
    by (simp add: ex_daemon_def)
  show ?thesis
    using add_flow_source_byte_counting_pattern [OF counting nonneg free_slot allocated]
      counting nonneg free_slot allocated admitted empty
    by (simp add: size)
qed

subsection \<open>name2socket: every candidate refuses\<close>

lemma connect_targets_append [simp]:
  "connect_targets (xs @ ys) = connect_targets xs @ connect_targets ys"
  by (induction xs rule: connect_targets.induct) simp_all

lemma connect_errnos_append [simp]:
  "connect_errnos (xs @ ys) = connect_errnos xs @ connect_errnos ys"
  by (induction xs rule: connect_errnos.induct) simp_all

lemma open_fds_append [simp]: "open_fds (xs @ ys) opn = open_fds ys (open_fds xs opn)"
  by (simp add: open_fds_def)

lemma open_fds_Nil [simp]: "open_fds [] opn = opn"
  by (simp add: open_fds_def)

lemma open_fds_Cons [simp]: "open_fds (ev # evs) opn = open_fds evs (fds_step ev opn)"
  by (simp add: open_fds_def)

lemma tune_socket_world:
  "snd (tune_socket os sockfd rreq sreq v w) =
     w\<lparr>trace := trace w @ tune_events os sockfd rreq sreq v (trace w)\<rparr>"
  by (simp add: tune_socket_def tune_events_def set_window_size_directed_def emit_def Let_def
        split: prod.splits)

lemma tune_socket_name:
  "server_name (fst (tune_socket os sockfd rreq sreq v w)) = server_name v"
  by (simp add: tune_socket_def set_window_size_directed_def Let_def split: prod.splits)

lemma tune_events_plain [simp]:
  "connect_targets (tune_events os sockfd rreq sreq v h) = []"
  "connect_errnos (tune_events os sockfd rreq sreq v h) = []"
  "open_fds (tune_events os sockfd rreq sreq v h) opn = opn"
  by (simp_all add: tune_events_def open_fds_def Let_def)

lemma loop_step_refused:
  assumes dc: "dc \<noteq> 0"
    and sock: "0 \<le> retval (sys_socket os (trace w) (ai_family c) (ai_socktype c) (ai_protocol c))"
    and refused: "\<And>h s. \<exists>e. sys_connect os h s (Some (ai_addr c)) (ai_addrlen c) = Err e"
  shows "\<exists>v1 w1 evs e.
           name2socket_loop os port dc rr sr (c # cs) v w =
             name2socket_loop os port dc rr sr cs v1 w1 \<and>
           server_name v1 = server_name v \<and>
           trace w1 = trace w @ evs \<and>
           connect_targets evs = [Some (ai_addr c)] \<and>
           (\<forall>opn. open_fds evs opn = opn) \<and>
           connect_errnos evs = [e] \<and>
           errno w1 = e"
proof -
  define r where "r = sys_socket os (trace w) (ai_family c) (ai_socktype c) (ai_protocol c)"
  define w1 where "w1 = emit (Ev_socket (ai_family c) (ai_socktype c) (ai_protocol c) r)
      (w\<lparr>errno := new_errno r (errno w)\<rparr>)"
  have s: "socket os (ai_family c) (ai_socktype c) (ai_protocol c) w = (retval r, w1)"
    by (simp add: socket_def Let_def r_def w1_def)
  obtain v3 w3 where t: "tune_socket os (retval r) rr sr v w1 = (v3, w3)"
    by (cases "tune_socket os (retval r) rr sr v w1")
  have name: "server_name v3 = server_name v"
    using tune_socket_name [of os "retval r" rr sr v w1] t by simp
  have w3: "w3 = w1\<lparr>trace := trace w1 @ tune_events os (retval r) rr sr v (trace w1)\<rparr>"
    using tune_socket_world [of os "retval r" rr sr v w1] t by simp
  obtain e where conn: "sys_connect os (trace w3) (retval r) (Some (ai_addr c)) (ai_addrlen c) = Err e"
    using refused by blast
  define w4 where "w4 = emit (Ev_connect (retval r) (Some (ai_addr c)) (ai_addrlen c) (Err e))
      (w3\<lparr>errno := e\<rparr>)"
  have c: "connect os (retval r) (Some (ai_addr c)) (ai_addrlen c) w3 = (- 1, w4)"
    by (simp add: connect_def Let_def conn w4_def)
  define w6 where "w6 = close (retval r)
      (emit (Ev_error ERR_WARNING (connect_warning os (server_name v3) port (errno w4))) w4)"
  have step: "name2socket_loop os port dc rr sr (c # cs) v w =
      name2socket_loop os port dc rr sr cs v3 w6"
    using dc sock by (simp add: s t c w6_def r_def [symmetric] Let_def)
  let ?evs = "Ev_socket (ai_family c) (ai_socktype c) (ai_protocol c) r #
      tune_events os (retval r) rr sr v (trace w1) @
      [Ev_connect (retval r) (Some (ai_addr c)) (ai_addrlen c) (Err e),
       Ev_error ERR_WARNING (connect_warning os (server_name v3) port (errno w4)),
       Ev_close (retval r)]"
  have tr: "trace w6 = trace w @ ?evs"
    by (simp add: w6_def w4_def w3 w1_def close_def emit_def)
  have er: "errno w6 = e"
    by (simp add: w6_def w4_def close_def emit_def)
  have fds: "open_fds ?evs opn = opn" for opn
    using sock by (simp add: r_def [symmetric])
  show ?thesis
    using step name tr er fds by (intro exI [of _ v3] exI [of _ w6] exI [of _ ?evs] exI [of _ e]) simp
qed

lemma loop_all_refused:
  assumes "dc \<noteq> 0"
    and "\<forall>h. \<forall>c \<in> set cands. 0 \<le> retval (sys_socket os h (ai_family c) (ai_socktype c) (ai_protocol c))"
    and "\<forall>h s. \<forall>c \<in> set cands. \<exists>e. sys_connect os h s (Some (ai_addr c)) (ai_addrlen c) = Err e"
  shows "\<exists>v' w' evs. name2socket_loop os port dc rr sr cands v w = (None, v', w') \<and>
           server_name v' = server_name v \<and>
           trace w' = trace w @ evs \<and>
           connect_targets evs = map (\<lambda>c. Some (ai_addr c)) cands \<and>
           (\<forall>opn. open_fds evs opn = opn) \<and>
           length (connect_errnos evs) = length cands \<and>
           errno w' = last (errno w # connect_errnos evs)"
  using assms(2,3)
proof (induction cands arbitrary: v w)
  case Nil
  then show ?case by simp
next
  case (Cons c cs)
  from Cons.prems have sock: "0 \<le> retval (sys_socket os (trace w) (ai_family c) (ai_socktype c) (ai_protocol c))"
    and refused: "\<And>h s. \<exists>e. sys_connect os h s (Some (ai_addr c)) (ai_addrlen c) = Err e"
    by simp_all
  from loop_step_refused [OF assms(1) sock refused, of port rr sr cs v]
  obtain v1 w1 evs1 e where
    step: "name2socket_loop os port dc rr sr (c # cs) v w = name2socket_loop os port dc rr sr cs v1 w1"
    and one: "server_name v1 = server_name v" "trace w1 = trace w @ evs1"
      "connect_targets evs1 = [Some (ai_addr c)]" "\<And>opn. open_fds evs1 opn = opn"
      "connect_errnos evs1 = [e]" "errno w1 = e"
    by blast
  from Cons.prems have rest:
    "\<forall>h. \<forall>c \<in> set cs. 0 \<le> retval (sys_socket os h (ai_family c) (ai_socktype c) (ai_protocol c))"
    "\<forall>h s. \<forall>c \<in> set cs. \<exists>e. sys_connect os h s (Some (ai_addr c)) (ai_addrlen c) = Err e"
    by simp_all
  from Cons.IH [OF rest, of v1 w1]
  obtain v' w' evs where
    all: "name2socket_loop os port dc rr sr cs v1 w1 = (None, v', w')"
      "server_name v' = server_name v1" "trace w' = trace w1 @ evs"
      "connect_targets evs = map (\<lambda>c. Some (ai_addr c)) cs" "\<And>opn. open_fds evs opn = opn"
      "length (connect_errnos evs) = length cs" "errno w' = last (errno w1 # connect_errnos evs)"
    by blast
  show ?case
    using step one all
    by (intro exI [of _ v'] exI [of _ w'] exI [of _ "evs1 @ evs"]) simp
qed



subsection \<open>name2socket: one round of the loop\<close>

lemma tune_socket_vars:
  "fst (tune_socket os sockfd rreq sreq v w) =
     v\<lparr>send_buffer_size :=
          (if send_buffer_size v \<noteq> None
           then Some (sys_set_window_size_directed os (trace w) sockfd sreq SO_SNDBUF)
           else None),
        read_buffer_size :=
          (if read_buffer_size v \<noteq> None
           then Some (sys_set_window_size_directed os
                  (trace w @ (if send_buffer_size v \<noteq> None
                     then [Ev_set_window_size_directed sockfd sreq SO_SNDBUF
                             (sys_set_window_size_directed os (trace w) sockfd sreq SO_SNDBUF)]
                     else [])) sockfd rreq SO_RCVBUF)
           else None)\<rparr>"
  by (auto simp add: tune_socket_def set_window_size_directed_def emit_def Let_def
        split: prod.splits)

lemma name2socket_loop_step:
  fixes c :: addrinfo and os :: os and w :: world and rr sr :: int and v :: n2s_vars
  defines "r \<equiv> sys_socket os (trace w) (ai_family c) (ai_socktype c) (ai_protocol c)"
  defines "sock \<equiv> Ev_socket (ai_family c) (ai_socktype c) (ai_protocol c) r"
  defines "tune \<equiv> tune_events os (retval r) rr sr v (trace w @ [sock])"
  defines "v3 \<equiv> fst (tune_socket os (retval r) rr sr v
      (emit sock (w\<lparr>errno := new_errno r (errno w)\<rparr>)))"
  obtains
    (no_socket) w1 where
      "retval r < 0" "trace w1 = trace w @ [sock]"
      "name2socket_loop os port dc rr sr (c # cs) v w = name2socket_loop os port dc rr sr cs v w1"
  | (not_connected) w3 where
      "0 \<le> retval r" "dc = 0" "trace w3 = trace w @ sock # tune"
      "name2socket_loop os port dc rr sr (c # cs) v w = (Some (c, retval r), v3, w3)"
  | (connected) res w4 where
      "0 \<le> retval r" "dc \<noteq> 0" "retval res = 0"
      "trace w4 = trace w @ sock # tune @
         [Ev_connect (retval r) (Some (ai_addr c)) (ai_addrlen c) res]"
      "name2socket_loop os port dc rr sr (c # cs) v w =
         (Some (c, retval r),
          v3\<lparr>server_name := fst (rewrite_server_name (ai_addr c) (server_name v) w4)\<rparr>,
          snd (rewrite_server_name (ai_addr c) (server_name v) w4))"
  | (refused) res msg w6 where
      "0 \<le> retval r" "dc \<noteq> 0" "retval res \<noteq> 0"
      "trace w6 = trace w @ sock # tune @
         [Ev_connect (retval r) (Some (ai_addr c)) (ai_addrlen c) res,
          Ev_error ERR_WARNING msg, Ev_close (retval r)]"
      "errno w6 = new_errno res (new_errno r (errno w))"
      "name2socket_loop os port dc rr sr (c # cs) v w = name2socket_loop os port dc rr sr cs v3 w6"
proof -
  define w1 where "w1 = emit sock (w\<lparr>errno := new_errno r (errno w)\<rparr>)"
  have s: "socket os (ai_family c) (ai_socktype c) (ai_protocol c) w = (retval r, w1)"
    by (simp add: socket_def Let_def r_def w1_def sock_def)
  have tr1: "trace w1 = trace w @ [sock]"
    by (simp add: w1_def emit_def)
  obtain w3 where t: "tune_socket os (retval r) rr sr v w1 = (v3, w3)"
    unfolding v3_def w1_def by (cases "tune_socket os (retval r) rr sr v
      (emit sock (w\<lparr>errno := new_errno r (errno w)\<rparr>))") simp
  have name: "server_name v3 = server_name v"
    using tune_socket_name [of os "retval r" rr sr v w1] t by simp
  have w3: "w3 = w1\<lparr>trace := trace w1 @ tune\<rparr>"
    using tune_socket_world [of os "retval r" rr sr v w1] t by (simp add: tune_def tr1)
  have tr3: "trace w3 = trace w @ sock # tune"
    by (simp add: w3 tr1)
  show thesis
  proof (cases "retval r < 0")
    case True
    show thesis
      by (rule no_socket [OF True tr1]) (simp add: s True)
  next
    case ok: False
    then have nonneg: "0 \<le> retval r"
      by simp
    show thesis
    proof (cases "dc = 0")
      case True
      show thesis
        by (rule not_connected [OF nonneg True tr3]) (simp add: s t ok True)
    next
      case dc: False
      define res where "res = sys_connect os (trace w3) (retval r) (Some (ai_addr c)) (ai_addrlen c)"
      define w4 where "w4 = emit (Ev_connect (retval r) (Some (ai_addr c)) (ai_addrlen c) res)
        (w3\<lparr>errno := new_errno res (errno w3)\<rparr>)"
      have c: "connect os (retval r) (Some (ai_addr c)) (ai_addrlen c) w3 = (retval res, w4)"
        by (simp add: connect_def Let_def res_def w4_def)
      have tr4: "trace w4 = trace w @ sock # tune @
          [Ev_connect (retval r) (Some (ai_addr c)) (ai_addrlen c) res]"
        by (simp add: w4_def emit_def tr3)
      show thesis
      proof (cases "retval res = 0")
        case True
        show thesis
          by (rule connected [OF nonneg dc True tr4])
            (simp add: s t c ok dc True name split: prod.splits)
      next
        case False
        define w6 where "w6 = close (retval r)
          (emit (Ev_error ERR_WARNING (connect_warning os (server_name v3) port (errno w4))) w4)"
        have tr6: "trace w6 = trace w @ sock # tune @
            [Ev_connect (retval r) (Some (ai_addr c)) (ai_addrlen c) res,
             Ev_error ERR_WARNING (connect_warning os (server_name v3) port (errno w4)),
             Ev_close (retval r)]"
          by (simp add: w6_def close_def emit_def tr4)
        have er6: "errno w6 = new_errno res (new_errno r (errno w))"
          by (simp add: w6_def close_def emit_def w4_def w3 w1_def)
        show thesis
          by (rule refused [OF nonneg dc False tr6 er6])
            (simp add: s t c ok dc False w6_def Let_def)
      qed
    qed
  qed
qed

subsection \<open>name2socket: the host string\<close>

lemma fmt_u_length:
  assumes "n < 65536"
  shows "length (fmt_u n) \<le> 5"
proof -
  have l1: "length (fmt_u m) = 1" if "m < 10" for m
    using that by (subst fmt_u.simps) simp
  have l2: "length (fmt_u m) \<le> 2" if "m < 100" for m
    using that l1 [of "m div 10"] by (subst fmt_u.simps) simp
  have l3: "length (fmt_u m) \<le> 3" if "m < 1000" for m
    using that l2 [of "m div 10"] by (subst fmt_u.simps) simp
  have l4: "length (fmt_u m) \<le> 4" if "m < 10000" for m
    using that l3 [of "m div 10"] by (subst fmt_u.simps) simp
  have l5: "length (fmt_u m) \<le> 5" if "m < 100000" for m
    using that l4 [of "m div 10"] by (subst fmt_u.simps) simp
  from assms show ?thesis
    by (intro l5) simp
qed

lemma fmt_x_length:
  assumes "n < 65536"
  shows "length (fmt_x n) \<le> 4"
proof -
  have l1: "length (fmt_x m) = 1" if "m < 16" for m
    using that by (subst fmt_x.simps) simp
  have l2: "length (fmt_x m) \<le> 2" if "m < 256" for m
    using that l1 [of "m div 16"] by (subst fmt_x.simps) simp
  have l3: "length (fmt_x m) \<le> 3" if "m < 4096" for m
    using that l2 [of "m div 16"] by (subst fmt_x.simps) simp
  have l4: "length (fmt_x m) \<le> 4" if "m < 65536" for m
    using that l3 [of "m div 16"] by (subst fmt_x.simps) simp
  from assms show ?thesis
    by (rule l4)
qed

lemma unat_byte_bound: "unat (b :: 8 word) < 65536"
  using unsigned_less [of b, where ?'a = nat] by simp

lemma unat_group_bound: "unat (g :: 16 word) < 65536"
  using unsigned_less [of g, where ?'a = nat] by simp

lemma inet_ntoa_length: "length (inet_ntoa a) \<le> 23"
proof (cases a)
  case (In_addr b0 b1 b2 b3)
  show ?thesis
    using fmt_u_length [OF unat_byte_bound [of b0]] fmt_u_length [OF unat_byte_bound [of b1]]
      fmt_u_length [OF unat_byte_bound [of b2]] fmt_u_length [OF unat_byte_bound [of b3]]
    by (simp add: In_addr)
qed

lemma ntop4_tail_length: "length (ntop4_tail w6 w7) \<le> 23"
  using fmt_u_length [OF unat_group_bound [of "drop_bit 8 w6"]]
    fmt_u_length [OF unat_group_bound [of "w6 AND 0xff"]]
    fmt_u_length [OF unat_group_bound [of "drop_bit 8 w7"]]
    fmt_u_length [OF unat_group_bound [of "w7 AND 0xff"]]
  by (simp add: ntop4_tail_def)

lemma ntop6_fmt_length:
  "length (ntop6_fmt best v4 tail i ws tp) \<le> length tp + 5 * length ws + 1 + length tail"
proof (induction ws arbitrary: i tp)
  case Nil
  show ?case by simp
next
  case (Cons g gs)
  have hex: "length (fmt_x (unat g)) \<le> 4"
    by (rule fmt_x_length [OF unat_group_bound])
  show ?case
    using Cons.IH [of "i + 1" "tp @ '':''"] Cons.IH [of "i + 1" tp]
      Cons.IH [of "i + 1" "tp @ fmt_x (unat g)"] Cons.IH [of "i + 1" "(tp @ '':'') @ fmt_x (unat g)"]
      hex
    by (auto simp: Let_def)
qed

lemma ntop6_text_length: "length (ntop6_text a) \<le> 65"
proof (cases a)
  case (In6_addr w0 w1 w2 w3 w4 w5 w6 w7)
  define best where "best = ntop6_best [w0, w1, w2, w3, w4, w5, w6, w7]"
  define v4 where "v4 \<longleftrightarrow> fst best = 0 \<and> (snd best = 6 \<or> (snd best = 5 \<and> w5 = 0xffff))"
  define tp where "tp = ntop6_fmt best v4 (ntop4_tail w6 w7) 0 [w0, w1, w2, w3, w4, w5, w6, w7] []"
  have "length tp \<le> 64"
    unfolding tp_def
    using ntop6_fmt_length [of best v4 "ntop4_tail w6 w7" 0 "[w0, w1, w2, w3, w4, w5, w6, w7]" "[]"]
      ntop4_tail_length [of w6 w7]
    by simp
  moreover have "ntop6_text a =
      (if fst best \<noteq> - 1 \<and> fst best + snd best = 8 then tp @ '':'' else tp)"
    by (simp add: In6_addr Let_def best_def v4_def tp_def del: ntop6_fmt.simps)
  ultimately show ?thesis
    by simp
qed

lemma numeric_text_length: "length (numeric_text a) < 256"
proof (cases a)
  case (Sockaddr_in x)
  with inet_ntoa_length [of x] show ?thesis by simp
next
  case (Sockaddr_in6 x)
  with ntop6_text_length [of x] show ?thesis by simp
next
  case Sockaddr_other
  then show ?thesis by simp
qed

lemma rewrite_server_name_text:
  assumes "a \<noteq> Sockaddr_other"
  shows "fst (rewrite_server_name a name w) = numeric_text a"
proof (cases a)
  case (Sockaddr_in x)
  with inet_ntoa_length [of x] show ?thesis
    by (simp add: rewrite_server_name_def)
next
  case (Sockaddr_in6 x)
  with ntop6_text_length [of x] show ?thesis
    by (simp add: rewrite_server_name_def inet_ntop6_def)
next
  case Sockaddr_other
  with assms show ?thesis by simp
qed

lemma rewrite_server_name_trace: "trace (snd (rewrite_server_name a name w)) = trace w"
  by (simp add: rewrite_server_name_def split: sockaddr.splits option.splits)


lemma tune_events_no_connect [simp]:
  "Ev_connect s a len r \<notin> set (tune_events os sockfd rreq sreq v h)"
  by (simp add: tune_events_def Let_def)

lemma name2socket_loop_rewrites:
  "name2socket_loop os port dc rr sr cands v w = (x, v', w') \<Longrightarrow>
   \<exists>evs. trace w' = trace w @ evs \<and>
     (\<forall>s a len r. Ev_connect s (Some a) len r \<in> set evs \<and> retval r = 0 \<and>
        a \<noteq> Sockaddr_other \<longrightarrow> server_name v' = numeric_text a)"
proof (induction cands arbitrary: v w)
  case Nil
  then show ?case by simp
next
  case (Cons c cs)
  show ?case
  proof (cases rule: name2socket_loop_step [where c = c and os = os and w = w and rr = rr
        and sr = sr and v = v and port = port and dc = dc and cs = cs])
    case (no_socket w1)
    from Cons.prems no_socket(3) have "name2socket_loop os port dc rr sr cs v w1 = (x, v', w')"
      by simp
    from Cons.IH [OF this] obtain evs' where t: "trace w' = trace w1 @ evs'"
      and p: "\<And>s a len r. Ev_connect s (Some a) len r \<in> set evs' \<Longrightarrow> retval r = 0 \<Longrightarrow>
        a \<noteq> Sockaddr_other \<Longrightarrow> server_name v' = numeric_text a"
      by blast
    let ?evs = "Ev_socket (ai_family c) (ai_socktype c) (ai_protocol c)
        (sys_socket os (trace w) (ai_family c) (ai_socktype c) (ai_protocol c)) # evs'"
    have "trace w' = trace w @ ?evs"
      using t no_socket(2) by simp
    moreover have "\<forall>s a len r. Ev_connect s (Some a) len r \<in> set ?evs \<and> retval r = 0 \<and>
        a \<noteq> Sockaddr_other \<longrightarrow> server_name v' = numeric_text a"
      using p by auto
    ultimately show ?thesis
      by blast
  next
    case (not_connected w3)
    with Cons.prems show ?thesis
      by auto
  next
    case (connected res w4)
    from Cons.prems connected(5)
    have v': "server_name v' = fst (rewrite_server_name (ai_addr c) (server_name v) w4)"
      and w': "w' = snd (rewrite_server_name (ai_addr c) (server_name v) w4)"
      by auto
    have "trace w' = trace w4"
      unfolding w' by (rule rewrite_server_name_trace)
    with connected(4) v' rewrite_server_name_text [of "ai_addr c" "server_name v" w4]
    show ?thesis
      by auto
  next
    case (refused res msg w6)
    from Cons.prems refused(6)
    have "name2socket_loop os port dc rr sr cs
        (fst (tune_socket os
          (retval (sys_socket os (trace w) (ai_family c) (ai_socktype c) (ai_protocol c))) rr sr v
          (emit (Ev_socket (ai_family c) (ai_socktype c) (ai_protocol c)
                  (sys_socket os (trace w) (ai_family c) (ai_socktype c) (ai_protocol c)))
            (w\<lparr>errno := new_errno
                (sys_socket os (trace w) (ai_family c) (ai_socktype c) (ai_protocol c))
                (errno w)\<rparr>)))) w6 = (x, v', w')"
      by simp
    from Cons.IH [OF this] obtain evs' where t: "trace w' = trace w6 @ evs'"
      and p: "\<And>s a len r. Ev_connect s (Some a) len r \<in> set evs' \<Longrightarrow> retval r = 0 \<Longrightarrow>
        a \<noteq> Sockaddr_other \<Longrightarrow> server_name v' = numeric_text a"
      by blast
    define pre where "pre = Ev_socket (ai_family c) (ai_socktype c) (ai_protocol c)
          (sys_socket os (trace w) (ai_family c) (ai_socktype c) (ai_protocol c)) #
        tune_events os
          (retval (sys_socket os (trace w) (ai_family c) (ai_socktype c) (ai_protocol c))) rr sr v
          (trace w @ [Ev_socket (ai_family c) (ai_socktype c) (ai_protocol c)
             (sys_socket os (trace w) (ai_family c) (ai_socktype c) (ai_protocol c))]) @
        [Ev_connect
           (retval (sys_socket os (trace w) (ai_family c) (ai_socktype c) (ai_protocol c)))
           (Some (ai_addr c)) (ai_addrlen c) res,
         Ev_error ERR_WARNING msg,
         Ev_close (retval (sys_socket os (trace w) (ai_family c) (ai_socktype c) (ai_protocol c)))]"
    have pre: "Ev_connect s (Some a) len r \<in> set pre \<Longrightarrow> retval r \<noteq> 0" for s a len r
      using refused(3) by (auto simp: pre_def)
    have "trace w' = trace w @ (pre @ evs')"
      using t refused(4) by (simp add: pre_def)
    moreover have "\<forall>s a len r. Ev_connect s (Some a) len r \<in> set (pre @ evs') \<and> retval r = 0 \<and>
        a \<noteq> Sockaddr_other \<longrightarrow> server_name v' = numeric_text a"
      using p pre by auto
    ultimately show ?thesis
      by blast
  qed
qed

lemma name2socket_cases:
  fixes os :: os and v :: n2s_vars and w :: world and port :: "32 word"
  defines "service \<equiv> take 6 (fmt_u (unat port))"
  defines "gai \<equiv> Ev_getaddrinfo (server_name v) service
      (fst (sys_getaddrinfo os (trace w) (server_name v) service))"
  obtains
    (unresolved)
      "n2s_vars (name2socket os flow port saptr lenp dc rr sr v w) = v"
      "trace (n2s_world (name2socket os flow port saptr lenp dc rr sr v w)) = trace w @ [gai]"
  | (looped) x v' w2 evs post where
      "fst (sys_getaddrinfo os (trace w) (server_name v) service) = 0"
      "name2socket_loop os port dc rr sr
         (snd (sys_getaddrinfo os (trace w) (server_name v) service)) v (emit gai w) =
         (x, v', w2)"
      "trace w2 = trace w @ gai # evs"
      "n2s_vars (name2socket os flow port saptr lenp dc rr sr v w) = v'"
      "trace (n2s_world (name2socket os flow port saptr lenp dc rr sr v w)) =
         trace w @ gai # evs @ post"
      "list_all tail_event post"
proof -
  obtain n cands where g: "sys_getaddrinfo os (trace w) (server_name v) service = (n, cands)"
    by (cases "sys_getaddrinfo os (trace w) (server_name v) service")
  show thesis
  proof (cases "n \<noteq> 0 \<or> cands = []")
    case True
    show thesis
      by (rule unresolved)
        (use True in \<open>auto simp: name2socket_def Let_def g [unfolded service_def] gai_def
          service_def emit_def\<close>)
  next
    case False
    obtain x v' w2 where l: "name2socket_loop os port dc rr sr cands v (emit gai w) = (x, v', w2)"
      by (cases "name2socket_loop os port dc rr sr cands v (emit gai w)")
    from name2socket_loop_events [OF l]
    obtain evs where tr: "trace w2 = trace w @ gai # evs"
      by (auto simp: emit_def)
    have gai0: "gai = Ev_getaddrinfo (server_name v) service 0"
      using False by (simp add: gai_def g)
    show thesis
    proof (cases x)
      case None
      show thesis
        by (rule looped [where post = "[Ev_freeaddrinfo]" and evs = evs and x = x and v' = v'
              and ?w2.0 = w2])
          (use False l tr None gai0 in \<open>simp_all add: name2socket_def Let_def
            g [unfolded service_def] g service_def [symmetric] emit_def\<close>)
    next
      case (Some found)
      obtain res sockfd where found: "found = (res, sockfd)"
        by (cases found)
      show thesis
      proof (cases "saptr \<noteq> None \<and> lenp \<noteq> None")
        case no: False
        show thesis
          by (rule looped [where post = "[Ev_freeaddrinfo]" and evs = evs and x = x and v' = v'
                and ?w2.0 = w2])
            (use False l tr Some found gai0 no in \<open>auto simp add: name2socket_def Let_def
              g [unfolded service_def] g service_def [symmetric] emit_def\<close>)
      next
        case True
        show thesis
        proof (cases "sys_malloc os (trace w2) (ai_addrlen res)")
          case ok: True
          show thesis
            by (rule looped [where post = "[Ev_malloc (ai_addrlen res) True, Ev_freeaddrinfo]"
                  and evs = evs and x = x and v' = v' and ?w2.0 = w2])
              (use False l tr Some found gai0 True ok in \<open>auto simp add: name2socket_def Let_def
                g [unfolded service_def] g service_def [symmetric] emit_def\<close>)
        next
          case failed: False
          show thesis
            by (rule looped [where post = "[Ev_malloc (ai_addrlen res) False,
                    Ev_error ERR_FATAL (''malloc(): failed: '' @ sys_strerror os ENOMEM)]"
                  and evs = evs and x = x and v' = v' and ?w2.0 = w2])
              (use False l tr Some found gai0 True failed in \<open>auto simp add: name2socket_def
                Let_def g [unfolded service_def] g service_def [symmetric] emit_def\<close>)
        qed
      qed
    qed
  qed
qed

lemma tail_event_plain:
  assumes "list_all tail_event post"
  shows "tune_run ns nr sreq rreq st post = Some st"
    and "granted dir post acc = acc"
    and "\<not> list_ex (adjusts dir) post"
    and "Ev_connect s a len r \<notin> set post"
  using assms
  by (induction post arbitrary: st acc; auto elim: tail_event.elims)+

text \<open>
  C8. \<^verbatim>\<open>name2socket\<close> is called with \<open>do_connect\<close> set. If one of its \<^verbatim>\<open>connect\<close>
  calls, to the address \<open>a\<close> of family IPv4 or IPv6, returns 0, then afterwards the host
  string of the caller is the numeric text of \<open>a\<close> (\<^verbatim>\<open>inet_ntoa\<close> for IPv4,
  \<^verbatim>\<open>inet_ntop\<close> for IPv6), and that text is shorter than 256 characters: with its
  terminating NUL it fits in the 256 bytes that the function writes to.
\<close>

theorem name2socket_rewrites_host:
  assumes "do_connect \<noteq> 0"
    and "Ev_connect s (Some a) len r \<in>
           set (new_events w (n2s_world (name2socket os flow port saptr lenp do_connect rr sr v w)))"
    and "retval r = 0"
    and "a \<noteq> Sockaddr_other"
  shows "server_name (n2s_vars (name2socket os flow port saptr lenp do_connect rr sr v w)) =
           numeric_text a \<and>
         length (numeric_text a) < 256"
proof (cases rule: name2socket_cases [where os = os and flow = flow and port = port
      and saptr = saptr and lenp = lenp and dc = do_connect and rr = rr and sr = sr and v = v
      and w = w])
  case unresolved
  with assms(2) show ?thesis
    by simp
next
  case (looped x v' w2 evs post)
  from name2socket_loop_rewrites [OF looped(2)] obtain evs' where
    t: "trace w2 = trace (emit (Ev_getaddrinfo (server_name v) (take 6 (fmt_u (unat port)))
          (fst (sys_getaddrinfo os (trace w) (server_name v) (take 6 (fmt_u (unat port)))))) w) @
        evs'"
    and p: "\<And>s a len r. Ev_connect s (Some a) len r \<in> set evs' \<Longrightarrow> retval r = 0 \<Longrightarrow>
        a \<noteq> Sockaddr_other \<Longrightarrow> server_name v' = numeric_text a"
    by blast
  from t looped(3) have same: "evs' = evs"
    by (simp add: emit_def)
  from assms(2) looped(5) tail_event_plain(4) [OF looped(6)]
  have "Ev_connect s (Some a) len r \<in> set evs"
    by auto
  from p [OF this [folded same] assms(3,4)] looped(4) numeric_text_length [of a] show ?thesis
    by simp
qed

text \<open>
  The IPv6 candidate is unreachable, the IPv4 candidate accepts: the host string
  \<^verbatim>\<open>localhost\<close> becomes \<^verbatim>\<open>127.0.0.1\<close>.
\<close>

theorem name2socket_rewrites_host_witness:
  "Ev_connect 3 (Some (Sockaddr_in (In_addr 127 0 0 1))) 16 (Ok 0) \<in>
     set (new_events ex_world
       (n2s_world (name2socket ex_os_v4 ex_flow 9000 None None 1 0 8192 ex_vars ex_world))) \<and>
   server_name (n2s_vars (name2socket ex_os_v4 ex_flow 9000 None None 1 0 8192 ex_vars ex_world)) =
     ''127.0.0.1''"
proof -
  have dc: "(1::int) \<noteq> 0"
    by simp
  have connected: "Ev_connect 3 (Some (Sockaddr_in (In_addr 127 0 0 1))) 16 (Ok 0) \<in>
     set (new_events ex_world
       (n2s_world (name2socket ex_os_v4 ex_flow 9000 None None 1 0 8192 ex_vars ex_world)))"
    by (simp add: model_defs ex_defs n2s_ex_defs new_events_def)
  have ok: "retval (Ok 0) = 0"
    by simp
  have inet: "Sockaddr_in (In_addr 127 0 0 1) \<noteq> Sockaddr_other"
    by simp
  have shown: "numeric_text (Sockaddr_in (In_addr 127 0 0 1)) = ''127.0.0.1''"
    by (simp add: fmt_u.simps digit_char_def)
  from name2socket_rewrites_host [OF dc connected ok inet]
  have "server_name
      (n2s_vars (name2socket ex_os_v4 ex_flow 9000 None None 1 0 8192 ex_vars ex_world)) =
      numeric_text (Sockaddr_in (In_addr 127 0 0 1))"
    by (rule conjunct1)
  then have "server_name
      (n2s_vars (name2socket ex_os_v4 ex_flow 9000 None None 1 0 8192 ex_vars ex_world)) =
      ''127.0.0.1''"
    by (simp only: shown)
  with connected show ?thesis
    by blast
qed

subsection \<open>name2socket: buffer sizes before the connect\<close>

lemma tune_run_append:
  "tune_run ns nr sreq rreq st (xs @ ys) =
     (case tune_run ns nr sreq rreq st xs of
        None \<Rightarrow> None
      | Some st' \<Rightarrow> tune_run ns nr sreq rreq st' ys)"
  by (induction xs arbitrary: st) (auto split: option.splits)

lemma granted_append [simp]: "granted dir (xs @ ys) acc = granted dir ys (granted dir xs acc)"
  by (induction dir xs acc rule: granted.induct) simp_all

lemma tune_run_tune_events:
  assumes "ns \<longleftrightarrow> send_buffer_size v \<noteq> None" and "nr \<longleftrightarrow> read_buffer_size v \<noteq> None"
  shows "tune_run ns nr sreq rreq (Some sockfd, False, False)
           (tune_events os sockfd rreq sreq v h) = Some (Some sockfd, ns, nr)"
  using assms by (auto simp add: tune_events_def Let_def)

lemma granted_tune_events:
  "granted SO_SNDBUF (tune_events os sockfd rreq sreq v (trace w)) acc =
     (if send_buffer_size v \<noteq> None
      then send_buffer_size (fst (tune_socket os sockfd rreq sreq v w)) else acc)"
  "granted SO_RCVBUF (tune_events os sockfd rreq sreq v (trace w)) acc =
     (if read_buffer_size v \<noteq> None
      then read_buffer_size (fst (tune_socket os sockfd rreq sreq v w)) else acc)"
  by (simp_all add: tune_events_def tune_socket_vars Let_def)

lemma adjusts_tune_events:
  "list_ex (adjusts SO_SNDBUF) (tune_events os sockfd rreq sreq v h) \<longleftrightarrow>
     send_buffer_size v \<noteq> None"
  "list_ex (adjusts SO_RCVBUF) (tune_events os sockfd rreq sreq v h) \<longleftrightarrow>
     read_buffer_size v \<noteq> None"
  by (simp_all add: tune_events_def Let_def)

lemma tune_socket_null:
  "send_buffer_size (fst (tune_socket os sockfd rreq sreq v w)) = None \<longleftrightarrow>
     send_buffer_size v = None"
  "read_buffer_size (fst (tune_socket os sockfd rreq sreq v w)) = None \<longleftrightarrow>
     read_buffer_size v = None"
  by (simp_all add: tune_socket_vars)


lemma tune_run_block:
  assumes "ns \<longleftrightarrow> send_buffer_size v \<noteq> None" and "nr \<longleftrightarrow> read_buffer_size v \<noteq> None"
    and "settled ns nr st" and "0 \<le> retval r"
  shows "tune_run ns nr sreq rreq st
           (Ev_socket domain ty pr r # tune_events os (retval r) rreq sreq v h @ post) =
         tune_run ns nr sreq rreq (Some (retval r), ns, nr) post"
proof (cases st)
  case (fields cur sd rd)
  with assms(3,4) show ?thesis
    by (simp add: tune_run_append tune_run_tune_events [OF assms(1,2)] del: settled.simps)
qed

lemma name2socket_loop_tunes:
  assumes "name2socket_loop os port dc rr sr cands v w = (x, v', w')"
    and "ns \<longleftrightarrow> send_buffer_size v \<noteq> None" and "nr \<longleftrightarrow> read_buffer_size v \<noteq> None"
    and "settled ns nr st"
  shows "\<exists>evs st'. trace w' = trace w @ evs \<and>
      tune_run ns nr sr rr st evs = Some st' \<and> settled ns nr st' \<and>
      send_buffer_size v' = granted SO_SNDBUF evs (send_buffer_size v) \<and>
      read_buffer_size v' = granted SO_RCVBUF evs (read_buffer_size v) \<and>
      (list_ex (adjusts SO_SNDBUF) evs \<longrightarrow> ns) \<and>
      (list_ex (adjusts SO_RCVBUF) evs \<longrightarrow> nr)"
  using assms
proof (induction cands arbitrary: v w st)
  case Nil
  from Nil.prems(1) have "v' = v" and "w' = w"
    by simp_all
  with Nil.prems(4) show ?case
    by (intro exI [of _ "[]"] exI [of _ st]) (simp del: settled.simps)
next
  case (Cons c cs)
  define r where "r = sys_socket os (trace w) (ai_family c) (ai_socktype c) (ai_protocol c)"
  define sock where "sock = Ev_socket (ai_family c) (ai_socktype c) (ai_protocol c) r"
  define w1 where "w1 = emit sock (w\<lparr>errno := new_errno r (errno w)\<rparr>)"
  define tune where "tune = tune_events os (retval r) rr sr v (trace w1)"
  define v3 where "v3 = fst (tune_socket os (retval r) rr sr v w1)"
  note ns = Cons.prems(2) and nr = Cons.prems(3)
  have tr1: "trace w1 = trace w @ [sock]"
    by (simp add: w1_def emit_def)
  have null3: "ns \<longleftrightarrow> send_buffer_size v3 \<noteq> None" "nr \<longleftrightarrow> read_buffer_size v3 \<noteq> None"
    using ns nr by (simp_all add: v3_def tune_socket_null)
  have g3: "granted SO_SNDBUF tune acc = (if ns then send_buffer_size v3 else acc)"
    "granted SO_RCVBUF tune acc = (if nr then read_buffer_size v3 else acc)" for acc
    using ns nr by (simp_all add: tune_def v3_def granted_tune_events)
  have a3: "list_ex (adjusts SO_SNDBUF) tune = ns" "list_ex (adjusts SO_RCVBUF) tune = nr"
    using ns nr by (simp_all add: tune_def adjusts_tune_events)
  have keep3: "\<not> ns \<Longrightarrow> send_buffer_size v3 = send_buffer_size v"
    "\<not> nr \<Longrightarrow> read_buffer_size v3 = read_buffer_size v"
    using ns nr by (simp_all add: v3_def tune_socket_vars)
  have block: "tune_run ns nr sr rr st (sock # tune @ post) =
      tune_run ns nr sr rr (Some (retval r), ns, nr) post" if "0 \<le> retval r" for post
    unfolding sock_def tune_def by (rule tune_run_block [OF ns nr Cons.prems(4) that])
  have after: "settled ns nr (Some (retval r), ns, nr)"
    by simp
  show ?case
  proof (cases rule: name2socket_loop_step [where c = c and os = os and w = w and rr = rr
        and sr = sr and v = v and port = port and dc = dc and cs = cs])
    case (no_socket w1')
    from Cons.prems(1) no_socket(3)
    have l: "name2socket_loop os port dc rr sr cs v w1' = (x, v', w')"
      by simp
    have st1: "settled ns nr (None, False, False)"
      by simp
    from Cons.IH [OF l ns nr st1] obtain evs' st' where
      t: "trace w' = trace w1' @ evs'"
      and run: "tune_run ns nr sr rr (None, False, False) evs' = Some st'"
      and rest: "settled ns nr st'"
        "send_buffer_size v' = granted SO_SNDBUF evs' (send_buffer_size v)"
        "read_buffer_size v' = granted SO_RCVBUF evs' (read_buffer_size v)"
        "list_ex (adjusts SO_SNDBUF) evs' \<longrightarrow> ns"
        "list_ex (adjusts SO_RCVBUF) evs' \<longrightarrow> nr"
      by blast
    have first: "tune_run ns nr sr rr st (sock # evs') = Some st'"
    proof (cases st)
      case (fields cur sd rd)
      with Cons.prems(4) no_socket(1) run show ?thesis
        by (simp add: sock_def r_def del: settled.simps)
    qed
    have "trace w' = trace w @ (sock # evs')"
      using t no_socket(2) by (simp add: sock_def r_def)
    with first rest show ?thesis
      by (intro exI [of _ "sock # evs'"] exI [of _ st']) (simp add: sock_def del: settled.simps)
  next
    case (not_connected w3)
    from Cons.prems(1) not_connected(4) have res: "v' = v3" "w' = w3"
      by (simp_all add: v3_def w1_def sock_def r_def)
    have tr: "trace w' = trace w @ (sock # tune @ [])"
      using not_connected(3) res by (simp add: sock_def tune_def r_def tr1)
    have run: "tune_run ns nr sr rr st (sock # tune @ []) = Some (Some (retval r), ns, nr)"
      using block [of "[]"] not_connected(1) by (simp add: r_def)
    show ?thesis
      using tr run after res(1) g3 a3 keep3
      by (intro exI [of _ "sock # tune @ []"] exI [of _ "(Some (retval r), ns, nr)"])
        (auto simp: sock_def simp del: settled.simps)
  next
    case (connected res w4)
    from Cons.prems(1) connected(5)
    have v': "send_buffer_size v' = send_buffer_size v3" "read_buffer_size v' = read_buffer_size v3"
      and w': "w' = snd (rewrite_server_name (ai_addr c) (server_name v) w4)"
      by (auto simp: v3_def w1_def sock_def r_def)
    let ?post = "[Ev_connect (retval r) (Some (ai_addr c)) (ai_addrlen c) res]"
    have tr: "trace w' = trace w @ (sock # tune @ ?post)"
      using connected(4) by (simp add: w' rewrite_server_name_trace sock_def tune_def r_def tr1)
    have run: "tune_run ns nr sr rr st (sock # tune @ ?post) = Some (Some (retval r), ns, nr)"
      using block [of ?post] connected(1) by (simp add: r_def)
    show ?thesis
      using tr run after v' g3 a3 keep3
      by (intro exI [of _ "sock # tune @ ?post"] exI [of _ "(Some (retval r), ns, nr)"])
        (auto simp: sock_def simp del: settled.simps)
  next
    case (refused res msg w6)
    from Cons.prems(1) refused(6)
    have l: "name2socket_loop os port dc rr sr cs v3 w6 = (x, v', w')"
      by (simp add: v3_def w1_def sock_def r_def)
    from Cons.IH [OF l null3 after] obtain evs' st' where
      t: "trace w' = trace w6 @ evs'"
      and run': "tune_run ns nr sr rr (Some (retval r), ns, nr) evs' = Some st'"
      and rest: "settled ns nr st'"
        "send_buffer_size v' = granted SO_SNDBUF evs' (send_buffer_size v3)"
        "read_buffer_size v' = granted SO_RCVBUF evs' (read_buffer_size v3)"
        "list_ex (adjusts SO_SNDBUF) evs' \<longrightarrow> ns"
        "list_ex (adjusts SO_RCVBUF) evs' \<longrightarrow> nr"
      by blast
    let ?post = "[Ev_connect (retval r) (Some (ai_addr c)) (ai_addrlen c) res,
        Ev_error ERR_WARNING msg, Ev_close (retval r)]"
    have tr: "trace w' = trace w @ (sock # tune @ ?post @ evs')"
      using t refused(4) by (simp add: sock_def tune_def r_def tr1)
    have run: "tune_run ns nr sr rr st (sock # tune @ ?post @ evs') = Some st'"
      using block [of "?post @ evs'"] refused(1) run' by (simp add: r_def)
    show ?thesis
      using tr run rest g3 a3 keep3
      by (intro exI [of _ "sock # tune @ ?post @ evs'"] exI [of _ st'])
        (auto simp: sock_def simp del: settled.simps)
  qed
qed

text \<open>
  C7, amended. In every call of \<^verbatim>\<open>name2socket\<close>, each socket that is created has,
  for each direction whose output pointer is non-null, its buffer size set by
  \<^verbatim>\<open>set_window_size_directed\<close> with the requested size before the next \<^verbatim>\<open>socket\<close>
  call, before the end of the call, and before any \<^verbatim>\<open>connect\<close>; every \<^verbatim>\<open>connect\<close> is
  on the socket created last. The value behind a non-null output pointer is, after the
  call, the size returned by the last \<^verbatim>\<open>set_window_size_directed\<close> call of its
  direction (unchanged if no socket was created). For a direction whose output pointer is
  null, \<^verbatim>\<open>set_window_size_directed\<close> is not called at all.
\<close>

theorem name2socket_tunes_before_connect:
  "tuned_before_connect (send_buffer_size v \<noteq> None) (read_buffer_size v \<noteq> None) sr rr
     (new_events w (n2s_world (name2socket os flow port saptr lenp do_connect rr sr v w))) \<and>
   send_buffer_size (n2s_vars (name2socket os flow port saptr lenp do_connect rr sr v w)) =
     granted SO_SNDBUF
       (new_events w (n2s_world (name2socket os flow port saptr lenp do_connect rr sr v w)))
       (send_buffer_size v) \<and>
   read_buffer_size (n2s_vars (name2socket os flow port saptr lenp do_connect rr sr v w)) =
     granted SO_RCVBUF
       (new_events w (n2s_world (name2socket os flow port saptr lenp do_connect rr sr v w)))
       (read_buffer_size v) \<and>
   (send_buffer_size v = None \<longrightarrow>
      \<not> list_ex (adjusts SO_SNDBUF)
          (new_events w (n2s_world (name2socket os flow port saptr lenp do_connect rr sr v w)))) \<and>
   (read_buffer_size v = None \<longrightarrow>
      \<not> list_ex (adjusts SO_RCVBUF)
          (new_events w (n2s_world (name2socket os flow port saptr lenp do_connect rr sr v w))))"
proof (cases rule: name2socket_cases [where os = os and flow = flow and port = port
      and saptr = saptr and lenp = lenp and dc = do_connect and rr = rr and sr = sr and v = v
      and w = w])
  case unresolved
  then show ?thesis
    by (simp add: tuned_before_connect_def)
next
  case (looped x v' w2 evs post)
  define ns where "ns \<longleftrightarrow> send_buffer_size v \<noteq> None"
  define nr where "nr \<longleftrightarrow> read_buffer_size v \<noteq> None"
  have start: "settled ns nr (None, False, False)"
    by simp
  from name2socket_loop_tunes [OF looped(2) ns_def nr_def start] obtain evs' st' where
    t: "trace w2 = trace (emit (Ev_getaddrinfo (server_name v) (take 6 (fmt_u (unat port)))
          (fst (sys_getaddrinfo os (trace w) (server_name v) (take 6 (fmt_u (unat port)))))) w) @
        evs'"
    and run: "tune_run ns nr sr rr (None, False, False) evs' = Some st'"
    and fin: "settled ns nr st'"
    and out: "send_buffer_size v' = granted SO_SNDBUF evs' (send_buffer_size v)"
      "read_buffer_size v' = granted SO_RCVBUF evs' (read_buffer_size v)"
    and only: "list_ex (adjusts SO_SNDBUF) evs' \<longrightarrow> ns" "list_ex (adjusts SO_RCVBUF) evs' \<longrightarrow> nr"
    by blast
  from t looped(3) have same: "evs' = evs"
    by (simp add: emit_def)
  note tail = tail_event_plain [OF looped(6)]
  have "tuned_before_connect ns nr sr rr
      (new_events w (n2s_world (name2socket os flow port saptr lenp do_connect rr sr v w)))"
    using run fin tail(1) [of ns nr sr rr st'] looped(5)
    by (simp add: tuned_before_connect_def tune_run_append same del: settled.simps)
  with out only tail(2,3) looped(4,5) show ?thesis
    by (auto simp: same ns_def nr_def list_ex_iff)
qed

text \<open>
  With a null pointer for the send size only the receive size is set, with a null pointer
  for the receive size only the send size; the request for 8192 bytes is answered with
  16384.
\<close>

theorem name2socket_tunes_before_connect_witness:
  "send_buffer_size ex_vars_no_send = None \<and>
   tuned_before_connect False True 8192 0
     (new_events ex_world
       (n2s_world (name2socket ex_os_v4 ex_flow 9000 None None 1 0 8192 ex_vars_no_send ex_world))) \<and>
   \<not> list_ex (adjusts SO_SNDBUF)
     (new_events ex_world
       (n2s_world (name2socket ex_os_v4 ex_flow 9000 None None 1 0 8192 ex_vars_no_send ex_world))) \<and>
   read_buffer_size ex_vars_no_read = None \<and>
   tuned_before_connect True False 8192 0
     (new_events ex_world
       (n2s_world (name2socket ex_os_v4 ex_flow 9000 None None 1 0 8192 ex_vars_no_read ex_world))) \<and>
   \<not> list_ex (adjusts SO_RCVBUF)
     (new_events ex_world
       (n2s_world (name2socket ex_os_v4 ex_flow 9000 None None 1 0 8192 ex_vars_no_read ex_world))) \<and>
   send_buffer_size
     (n2s_vars (name2socket ex_os_v4 ex_flow 9000 None None 1 0 8192 ex_vars_no_read ex_world)) =
     Some 16384"
proof -
  have null: "send_buffer_size ex_vars_no_send = None" "read_buffer_size ex_vars_no_send \<noteq> None"
    "read_buffer_size ex_vars_no_read = None" "send_buffer_size ex_vars_no_read \<noteq> None"
    by (simp_all add: n2s_ex_defs)
  have size: "granted SO_SNDBUF
     (new_events ex_world
       (n2s_world (name2socket ex_os_v4 ex_flow 9000 None None 1 0 8192 ex_vars_no_read ex_world)))
     (send_buffer_size ex_vars_no_read) = Some 16384"
    by (simp add: model_defs ex_defs n2s_ex_defs new_events_def)
  show ?thesis
    using name2socket_tunes_before_connect [of ex_vars_no_send 8192 0 ex_world ex_os_v4 ex_flow 9000 None None 1]
      name2socket_tunes_before_connect [of ex_vars_no_read 8192 0 ex_world ex_os_v4 ex_flow 9000 None None 1]
    by (simp add: null size)
qed

text \<open>
  C7, as it is stated, fails: the caller asks for a send buffer of 8192 bytes and passes a
  null pointer for the effective send size. A socket is created and connected, and the
  send buffer size of that socket is never set.
\<close>

theorem name2socket_null_pointer_not_tuned:
  "send_buffer_size ex_vars_no_send = None \<and>
   Ev_socket PF_INET 1 6 (Ok 3) \<in>
     set (new_events ex_world
       (n2s_world (name2socket ex_os_v4 ex_flow 9000 None None 1 0 8192 ex_vars_no_send ex_world))) \<and>
   Ev_connect 3 (Some (Sockaddr_in (In_addr 127 0 0 1))) 16 (Ok 0) \<in>
     set (new_events ex_world
       (n2s_world (name2socket ex_os_v4 ex_flow 9000 None None 1 0 8192 ex_vars_no_send ex_world))) \<and>
   \<not> list_ex (adjusts SO_SNDBUF)
     (new_events ex_world
       (n2s_world (name2socket ex_os_v4 ex_flow 9000 None None 1 0 8192 ex_vars_no_send ex_world))) \<and>
   \<not> tuned_before_connect True True 8192 0
     (new_events ex_world
       (n2s_world (name2socket ex_os_v4 ex_flow 9000 None None 1 0 8192 ex_vars_no_send ex_world)))"
  by (simp add: model_defs ex_defs n2s_ex_defs new_events_def tuned_before_connect_def)

end
